theory Spec2Isabelle
  imports Complex_Main
begin

section \<open>Strings and numbers of the host language\<close>

text \<open>
  A JavaScript string is a sequence of code units. The development works with the code
  units below 256, one \<^typ>\<open>char\<close> each, which covers every literal of the program.
\<close>

definition nl :: string where
  "nl = [CHR 0x0A]"

text \<open>The white space that \<^verbatim>\<open>String.prototype.trim\<close> strips, among the code units below 256.\<close>

definition is_ws :: "char \<Rightarrow> bool" where
  "is_ws c = (c \<in> set [CHR 0x09, CHR 0x0A, CHR 0x0B, CHR 0x0C, CHR 0x0D, CHR 0x20, CHR 0xA0])"

definition trim :: "string \<Rightarrow> string" where
  "trim s = rev (dropWhile is_ws (rev (dropWhile is_ws s)))"

text \<open>\<^verbatim>\<open>Array.prototype.join\<close>.\<close>

fun join :: "string \<Rightarrow> string list \<Rightarrow> string" where
  "join sep [] = []"
| "join sep [x] = x"
| "join sep (x # y # ys) = x @ sep @ join sep (y # ys)"

text \<open>Decimal printing of numbers, as a template literal does it.\<close>

fun digits :: "nat \<Rightarrow> string" where
  "digits n =
     (if n < 10 then [''0123456789'' ! n]
      else digits (n div 10) @ [''0123456789'' ! (n mod 10)])"

definition showInt :: "int \<Rightarrow> string" where
  "showInt i = (if i < 0 then ''-'' @ digits (nat (- i)) else digits (nat i))"

text \<open>The exit code handed to the \<^verbatim>\<open>close\<close> handler is a number, or \<^verbatim>\<open>null\<close> when a signal ended the child.\<close>

definition showCode :: "int option \<Rightarrow> string" where
  "showCode code = (case code of None \<Rightarrow> ''null'' | Some c \<Rightarrow> showInt c)"

text \<open>\<^verbatim>\<open>String.prototype.toLowerCase\<close> on the code units below 256: the letters A to Z and
  the upper-case letters of Latin-1 have a lower-case partner, every other one is kept.\<close>

definition upperCase :: string where
  "upperCase =
     ''ABCDEFGHIJKLMNOPQRSTUVWXYZ'' @
     [CHR 0xC0, CHR 0xC1, CHR 0xC2, CHR 0xC3, CHR 0xC4, CHR 0xC5, CHR 0xC6, CHR 0xC7,
      CHR 0xC8, CHR 0xC9, CHR 0xCA, CHR 0xCB, CHR 0xCC, CHR 0xCD, CHR 0xCE, CHR 0xCF,
      CHR 0xD0, CHR 0xD1, CHR 0xD2, CHR 0xD3, CHR 0xD4, CHR 0xD5, CHR 0xD6, CHR 0xD8,
      CHR 0xD9, CHR 0xDA, CHR 0xDB, CHR 0xDC, CHR 0xDD, CHR 0xDE]"

definition lowerCase :: string where
  "lowerCase =
     ''abcdefghijklmnopqrstuvwxyz'' @
     [CHR 0xE0, CHR 0xE1, CHR 0xE2, CHR 0xE3, CHR 0xE4, CHR 0xE5, CHR 0xE6, CHR 0xE7,
      CHR 0xE8, CHR 0xE9, CHR 0xEA, CHR 0xEB, CHR 0xEC, CHR 0xED, CHR 0xEE, CHR 0xEF,
      CHR 0xF0, CHR 0xF1, CHR 0xF2, CHR 0xF3, CHR 0xF4, CHR 0xF5, CHR 0xF6, CHR 0xF8,
      CHR 0xF9, CHR 0xFA, CHR 0xFB, CHR 0xFC, CHR 0xFD, CHR 0xFE]"

definition lowerChar :: "char \<Rightarrow> char" where
  "lowerChar c = (case map_of (zip upperCase lowerCase) c of None \<Rightarrow> c | Some d \<Rightarrow> d)"

definition toLowerCase :: "string \<Rightarrow> string" where
  "toLowerCase s = map lowerChar s"

text \<open>Truthiness of an optional string: \<^verbatim>\<open>undefined\<close> and the empty string are falsy.\<close>

definition truthy :: "string option \<Rightarrow> bool" where
  "truthy v = (case v of None \<Rightarrow> False | Some s \<Rightarrow> s \<noteq> [])"

text \<open>\<^verbatim>\<open>a || b\<close> on an optional string with a string default.\<close>

definition orElse :: "string option \<Rightarrow> string \<Rightarrow> string" where
  "orElse v d = (case v of None \<Rightarrow> d | Some s \<Rightarrow> (if s = [] then d else s))"


section \<open>Progress events and observable effects\<close>

text \<open>The object that \<^verbatim>\<open>sendStatusUpdate\<close> serialises; \<open>data\<close> is \<^verbatim>\<open>null\<close> or \<^verbatim>\<open>{ appUrl }\<close>.\<close>

record event =
  message :: string
  isError :: bool
  isComplete :: bool
  data :: "string option"

datatype level = Log | Warn | Err

text \<open>
  Everything a run does to the outside, in program order. \<open>Suspend\<close> marks the places
  where the run gives control back to the event loop, at an \<^verbatim>\<open>await\<close> and between the
  events of a child process: what lies between two such marks happens in one turn, and
  other requests are served only at the marks.
\<close>

datatype effect =
    Publish event
  | Console level string
  | Spawn string "string list"
  | Fetch string string "string option"
  | WriteFile string string
  | Unlink string
  | Suspend

text \<open>A call of the progress callback with its default arguments filled in.\<close>

definition sendUpdate :: "string \<Rightarrow> bool \<Rightarrow> bool \<Rightarrow> string option \<Rightarrow> effect" where
  "sendUpdate m e c d = Publish \<lparr>message = m, isError = e, isComplete = c, data = d\<rparr>"

definition info :: "string \<Rightarrow> effect" where
  "info m = sendUpdate m False False None"

definition failure :: "string \<Rightarrow> effect" where
  "failure m = sendUpdate m True False None"

fun events :: "effect list \<Rightarrow> event list" where
  "events [] = []"
| "events (Publish e # tr) = e # events tr"
| "events (_ # tr) = events tr"

fun commands :: "effect list \<Rightarrow> (string \<times> string list) list" where
  "commands [] = []"
| "commands (Spawn c a # tr) = (c, a) # commands tr"
| "commands (_ # tr) = commands tr"

fun unlinks :: "effect list \<Rightarrow> string list" where
  "unlinks [] = []"
| "unlinks (Unlink p # tr) = p # unlinks tr"
| "unlinks (_ # tr) = unlinks tr"

fun fileWrites :: "effect list \<Rightarrow> string list" where
  "fileWrites [] = []"
| "fileWrites (WriteFile p c # tr) = p # fileWrites tr"
| "fileWrites (_ # tr) = fileWrites tr"

fun consoleFree :: "effect list \<Rightarrow> effect list" where
  "consoleFree [] = []"
| "consoleFree (Console l m # tr) = consoleFree tr"
| "consoleFree (x # tr) = x # consoleFree tr"


section \<open>The command execution wrapper: \<^verbatim>\<open>runCommand\<close>\<close>

text \<open>
  What a child process does, as the wrapper's handlers see it: the data chunks of its two
  output streams in arrival order, then the one event that settles the promise, either
  \<^verbatim>\<open>error\<close> (the process could not be started) or \<^verbatim>\<open>close\<close> with the exit code.
\<close>

datatype chunk = Stdout string | Stderr string

datatype ending = SpawnError string | Close "int option"

record proc =
  chunks :: "chunk list"
  ending :: ending

record command_result =
  stdout :: string
  stderr :: string
  exitCode :: int

record wrapper =
  stdoutData :: string
  stderrData :: string
  emitted :: "effect list"

definition commandString :: "string \<Rightarrow> string list \<Rightarrow> string" where
  "commandString command args = command @ '' '' @ join '' '' args"

definition tag :: "string \<Rightarrow> string" where
  "tag deploymentId = ''['' @ deploymentId @ ''] ''"

text \<open>The two \<^verbatim>\<open>data\<close> handlers.\<close>

fun on_data :: "string \<Rightarrow> wrapper \<Rightarrow> chunk \<Rightarrow> wrapper" where
  "on_data deploymentId w (Stdout d) =
     (let line = trim d in
      if line \<noteq> [] then
        w\<lparr>stdoutData := stdoutData w @ line @ nl,
          emitted := emitted w @
            [info (''[stdout] '' @ line),
             Console Log (tag deploymentId @ ''STDOUT: '' @ line)]\<rparr>
      else w)"
| "on_data deploymentId w (Stderr d) =
     (let line = trim d in
      if line \<noteq> [] then
        w\<lparr>stderrData := stderrData w @ line @ nl,
          emitted := emitted w @
            [info (''[stderr] '' @ line),
             Console Err (tag deploymentId @ ''STDERR: '' @ line)]\<rparr>
      else w)"

text \<open>The \<^verbatim>\<open>error\<close> and \<^verbatim>\<open>close\<close> handlers: the effects they add and how the promise settles
  (\<open>Inl\<close> is the message of the \<^verbatim>\<open>Error\<close> it rejects with).\<close>

definition failedMessage :: "string \<Rightarrow> int option \<Rightarrow> string \<Rightarrow> string" where
  \<open>failedMessage cs code err =
     ''Command "'' @ cs @ ''" failed with exit code '' @ showCode code @ ''. Stderr: '' @
     (if err = [] then ''None'' else err)\<close>

definition startMessage :: "string \<Rightarrow> string \<Rightarrow> string" where
  \<open>startMessage cs m = ''Failed to start command "'' @ cs @ ''": '' @ m\<close>

definition completedMessage :: "string \<Rightarrow> string" where
  \<open>completedMessage cs = ''Command "'' @ cs @ ''" completed successfully.''\<close>

fun on_end :: "string \<Rightarrow> string \<Rightarrow> wrapper \<Rightarrow> ending \<Rightarrow> effect list \<times> (string + command_result)" where
  "on_end cs deploymentId w (SpawnError m) =
     (emitted w @
        [Console Err (tag deploymentId @ ''Spawn Error: '' @ m),
         failure (''Spawn Error: '' @ m)],
      Inl (startMessage cs m))"
| "on_end cs deploymentId w (Close code) =
     (if code \<noteq> Some 0 then
        (emitted w @
           [Console Log (tag deploymentId @ ''Exit Code: '' @ showCode code),
            Console Err (tag deploymentId @ failedMessage cs code (stderrData w)),
            failure (failedMessage cs code (stderrData w))],
         Inl (failedMessage cs code (stderrData w)))
      else
        (emitted w @
           [Console Log (tag deploymentId @ ''Exit Code: '' @ showCode code),
            info (completedMessage cs)],
         Inr \<lparr>stdout = stdoutData w, stderr = stderrData w, exitCode = 0\<rparr>))"

definition started :: "string \<Rightarrow> string list \<Rightarrow> string \<Rightarrow> wrapper" where
  "started command args deploymentId =
     \<lparr>stdoutData = [], stderrData = [],
      emitted =
        [info (''Executing: '' @ commandString command args @ ''...''),
         Console Log (tag deploymentId @ ''Executing: '' @ commandString command args),
         Spawn command args]\<rparr>"

text \<open>Every event of the child is handled in a turn of its own.\<close>

definition turn :: "wrapper \<Rightarrow> wrapper" where
  "turn w = w\<lparr>emitted := emitted w @ [Suspend]\<rparr>"

definition arrive :: "string \<Rightarrow> wrapper \<Rightarrow> chunk \<Rightarrow> wrapper" where
  "arrive deploymentId w ch = on_data deploymentId (turn w) ch"

definition runCommand ::
  "string \<Rightarrow> string list \<Rightarrow> string \<Rightarrow> proc \<Rightarrow> effect list \<times> (string + command_result)" where
  "runCommand command args deploymentId p =
     on_end (commandString command args) deploymentId
       (turn (foldl (arrive deploymentId) (started command args deploymentId) (chunks p)))
       (ending p)"

text \<open>A text between single quotes, as the messages of the program show names.\<close>

definition quoted :: "string \<Rightarrow> string" where
  "quoted s = [CHR 0x27] @ s @ [CHR 0x27]"


section \<open>The world one orchestration run meets\<close>

text \<open>
  The answer of \<^verbatim>\<open>fetch\<close>: the promise rejects (network failure), or a response arrives with
  its status, its text, and what \<^verbatim>\<open>json()\<close> yields: a rejection (malformed body),
  \<^verbatim>\<open>null\<close>, or a value, of which the model keeps the field the program reads.
\<close>

datatype 'a body = BadJson string | NullBody | JVal 'a

datatype 'a fetched = Rejected string | Responded nat string "'a body"

text \<open>\<^verbatim>\<open>fs.writeFile\<close> succeeds, or fails with a message, possibly after it created the file.\<close>

datatype write_result = Written | WriteFailed string bool

record env =
  random :: real
  HUMANITEC_SERVICE_USER_API_TOKEN :: "string option"
  FLY_REGION :: "string option"
  DEPLOY_IMAGE :: "string option"
  FLY_ORG :: "string option"
  tmpdir :: string
  createUser :: "string option fetched"
  getUsers :: "string option list fetched"
  createToken :: "string option fetched"
  spawn :: "string \<Rightarrow> string list \<Rightarrow> proc"
  writeFile :: write_result
  unlinkError :: "string option"
  numberToString :: "real \<Rightarrow> string"

text \<open>
  The values a parsed request body can hold; \<open>JUndefined\<close> is what reading an absent field
  gives. A number is the real that the double denotes.
\<close>

datatype jsval =
    JUndefined
  | JNull
  | JBool bool
  | JNum real
  | JStr string
  | JArr "jsval list"
  | JObj "(string \<times> jsval) list"

record formData =
  orgName :: jsval
  geminiKey :: jsval

text \<open>Truthiness: \<^verbatim>\<open>undefined\<close>, \<^verbatim>\<open>null\<close>, \<^verbatim>\<open>false\<close>, zero and the empty string are falsy.\<close>

fun truthyVal :: "jsval \<Rightarrow> bool" where
  "truthyVal JUndefined = False"
| "truthyVal JNull = False"
| "truthyVal (JBool b) = b"
| "truthyVal (JNum r) = (r \<noteq> 0)"
| "truthyVal (JStr s) = (s \<noteq> [])"
| "truthyVal (JArr xs) = True"
| "truthyVal (JObj kvs) = True"

text \<open>
  The text a template literal makes of a value. An integer below \<open>10\<^sup>2\<^sup>1\<close> in size prints
  in plain decimal; how the host prints any other number is left to the world, as
  \<open>numberToString\<close>.
\<close>

fun stringOf :: "(real \<Rightarrow> string) \<Rightarrow> jsval \<Rightarrow> string" where
  "stringOf num JUndefined = ''undefined''"
| "stringOf num JNull = ''null''"
| "stringOf num (JBool b) = (if b then ''true'' else ''false'')"
| "stringOf num (JNum r) =
     (if r = of_int \<lfloor>r\<rfloor> \<and> \<bar>r\<bar> < 10 ^ 21 then showInt \<lfloor>r\<rfloor> else num r)"
| "stringOf num (JStr s) = s"
| "stringOf num (JArr xs) =
     join '','' (map (\<lambda>x. case x of JUndefined \<Rightarrow> [] | JNull \<Rightarrow> [] | _ \<Rightarrow> stringOf num x) xs)"
| "stringOf num (JObj kvs) = ''[object Object]''"

text \<open>\<^verbatim>\<open>response.ok\<close>.\<close>

definition ok :: "nat \<Rightarrow> bool" where
  "ok status = (200 \<le> status \<and> status \<le> 299)"


section \<open>Sequencing of fallible steps\<close>

text \<open>A step yields the effects it had and either the message of the error it threw
  (\<open>Inl\<close>) or its value.\<close>

type_synonym 'a step = "effect list \<times> (string + 'a)"

definition andThen :: "'a step \<Rightarrow> ('a \<Rightarrow> 'b step) \<Rightarrow> 'b step" where
  "andThen m f =
     (case m of
        (tr, Inl e) \<Rightarrow> (tr, Inl e)
      | (tr, Inr x) \<Rightarrow> (case f x of (tr', r) \<Rightarrow> (tr @ tr', r)))"

definition say :: "effect list \<Rightarrow> unit step" where
  "say tr = (tr, Inr ())"

definition throw :: "string \<Rightarrow> 'a step" where
  "throw m = ([], Inl m)"

definition yield :: "'a \<Rightarrow> 'a step" where
  "yield x = ([], Inr x)"

text \<open>\<^verbatim>\<open>await\<close> of a promise that is settled outside the run, before \<open>m\<close> goes on.\<close>

definition awaiting :: "'a step \<Rightarrow> 'a step" where
  "awaiting m = andThen (say [Suspend]) (\<lambda>_. m)"

text \<open>\<^verbatim>\<open>try { m } catch (error) { h(error.message) }\<close> where the handler throws again.\<close>

definition rethrow :: "'a step \<Rightarrow> (string \<Rightarrow> effect list \<times> string) \<Rightarrow> 'a step" where
  "rethrow m h =
     (case m of
        (tr, Inl e) \<Rightarrow> (tr @ fst (h e), Inl (snd (h e)))
      | (tr, Inr x) \<Rightarrow> (tr, Inr x))"


section \<open>The orchestrator: \<^verbatim>\<open>startDeployment\<close>\<close>

subsection \<open>Name derivation\<close>

text \<open>\<^verbatim>\<open>.replace(/[^a-z0-9-]/g, "-")\<close>\<close>

definition allowed :: "char \<Rightarrow> bool" where
  "allowed c = (c \<in> set ''abcdefghijklmnopqrstuvwxyz0123456789-'')"

definition replaceDisallowed :: "string \<Rightarrow> string" where
  "replaceDisallowed s = map (\<lambda>c. if allowed c then c else CHR ''-'') s"

definition sanitizedOrgName :: "string \<Rightarrow> string" where
  "sanitizedOrgName org = take 40 (replaceDisallowed (toLowerCase org))"

text \<open>\<^verbatim>\<open>Math.floor(1000 + Math.random() * 9000).toString()\<close>, on the number that
  \<^verbatim>\<open>Math.random()\<close> returned, taken as a real.\<close>

definition randomSuffix :: "real \<Rightarrow> string" where
  "randomSuffix r = showInt \<lfloor>1000 + r * 9000\<rfloor>"

definition appNameOf :: "string \<Rightarrow> real \<Rightarrow> string" where
  "appNameOf org r = sanitizedOrgName org @ ''-'' @ randomSuffix r"

definition deriveName :: "formData \<Rightarrow> string \<Rightarrow> env \<Rightarrow> string step" where
  "deriveName fd deploymentId e =
     andThen (say [info ''Generating unique application name...'']) (\<lambda>_.
       case orgName fd of
         JStr org \<Rightarrow>
           andThen
             (say [info (''Generated Fly app name: '' @ appNameOf org (random e)),
                   Console Log (tag deploymentId @ ''Generated unique Fly app name: '' @
                     appNameOf org (random e))])
             (\<lambda>_. yield (appNameOf org (random e)))
       | JUndefined \<Rightarrow>
           throw (''Cannot read properties of undefined (reading '' @ quoted ''toLowerCase'' @ '')'')
       | JNull \<Rightarrow>
           throw (''Cannot read properties of null (reading '' @ quoted ''toLowerCase'' @ '')'')
       | _ \<Rightarrow> throw ''orgName.toLowerCase is not a function'')"

subsection \<open>Service user and token\<close>

definition usersUrl :: string where
  "usersUrl = ''https://api.humanitec.io/orgs/canyon-demo/users''"

definition serviceUserName :: "string \<Rightarrow> string" where
  "serviceUserName name = ''canyon-chat-fly-'' @ name"

definition tokenId :: "string \<Rightarrow> string" where
  "tokenId name = ''canyon-chat-fly-token-'' @ name"

definition createUserBody :: "string \<Rightarrow> string" where
  \<open>createUserBody name =
     ''{"name":"'' @ serviceUserName name @ ''","role":"member","type":"service"}''\<close>

definition createTokenBody :: "string \<Rightarrow> string" where
  \<open>createTokenBody name =
     ''{"id":"'' @ tokenId name @
     ''","description":"Token for Canyon Chat Fly deployment ('' @ name @
     '')","expires_at":"2035-01-01T00:00:00Z","type":"static"}''\<close>

definition noIdMessage :: "string \<Rightarrow> string" where
  "noIdMessage name =
     ''Failed to find ID for existing service user '' @ quoted (serviceUserName name) @ ''.''"

text \<open>The lookup after a 409. The service user name consists of lower-case letters, digits
  and hyphens, which \<^verbatim>\<open>encodeURIComponent\<close> leaves as they are.\<close>

definition lookupUser :: "string \<Rightarrow> string \<Rightarrow> env \<Rightarrow> string step" where
  "lookupUser deploymentId name e =
     andThen
       (say [info (''Service user '' @ quoted (serviceUserName name) @
               '' already exists. Fetching ID...''),
             Console Warn (tag deploymentId @ ''Service user '' @ quoted (serviceUserName name) @
               '' likely already exists. Attempting to fetch ID.''),
             Fetch ''GET'' (usersUrl @ ''?name='' @ serviceUserName name) None,
             Suspend]) (\<lambda>_.
       case getUsers e of
         Rejected m \<Rightarrow> throw m
       | Responded status txt b \<Rightarrow>
           if \<not> ok status then
             throw (''Failed to find existing service user '' @ quoted (serviceUserName name) @
               ''. Status: '' @ digits status)
           else
             awaiting (case b of
                BadJson m \<Rightarrow> throw m
              | NullBody \<Rightarrow> throw (noIdMessage name)
              | JVal users \<Rightarrow>
                  (case users of
                     [] \<Rightarrow> throw (noIdMessage name)
                   | u # _ \<Rightarrow>
                       if \<not> truthy u then throw (noIdMessage name)
                       else
                         andThen
                           (say [info (''Found existing service user ID: '' @ the u),
                                 Console Log (tag deploymentId @
                                   ''Found existing service user ID: '' @ the u)])
                           (\<lambda>_. yield (the u)))))"

definition createOrFindUser :: "string \<Rightarrow> string \<Rightarrow> env \<Rightarrow> string step" where
  "createOrFindUser deploymentId name e =
     andThen (say [Fetch ''POST'' usersUrl (Some (createUserBody name)), Suspend]) (\<lambda>_.
       case createUser e of
         Rejected m \<Rightarrow> throw m
       | Responded status txt b \<Rightarrow>
           if \<not> ok status then
             (if status = 409 then lookupUser deploymentId name e
              else
                awaiting
                  (throw (''Failed to create Humanitec service user. Status: '' @
                     digits status @ '', Body: '' @ txt)))
           else
             awaiting (case b of
                BadJson m \<Rightarrow> throw m
              | NullBody \<Rightarrow> throw ''Failed to parse service user ID from Humanitec response.''
              | JVal u \<Rightarrow>
                  if \<not> truthy u then
                    throw ''Failed to parse service user ID from Humanitec response.''
                  else
                    andThen
                      (say [info (''Successfully created Humanitec service user. ID: '' @ the u),
                            Console Log (tag deploymentId @
                              ''Successfully created Humanitec service user. ID: '' @ the u)])
                      (\<lambda>_. yield (the u))))"

definition tokenExistsMessage :: "string \<Rightarrow> string \<Rightarrow> string" where
  "tokenExistsMessage name userId =
     ''Token with ID '' @ quoted (tokenId name) @ '' already exists for user '' @ quoted userId @
     ''. Cannot retrieve existing static token. Please delete it manually in Humanitec if you want to proceed.''"

definition generateToken :: "string \<Rightarrow> string \<Rightarrow> string \<Rightarrow> env \<Rightarrow> string step" where
  "generateToken deploymentId name userId e =
     andThen
       (say [info (''Generating API token for user ID: '' @ userId @ ''...''),
             Console Log (tag deploymentId @ ''Attempting to generate token for user ID: '' @ userId),
             Fetch ''POST'' (''https://api.humanitec.io/users/'' @ userId @ ''/tokens'')
               (Some (createTokenBody name)),
             Suspend]) (\<lambda>_.
       case createToken e of
         Rejected m \<Rightarrow> throw m
       | Responded status txt b \<Rightarrow>
           if \<not> ok status then
             (if status = 409 then
                andThen (say [Console Err (tag deploymentId @ tokenExistsMessage name userId)])
                  (\<lambda>_. throw (tokenExistsMessage name userId))
              else
                awaiting
                  (throw (''Failed to generate Humanitec API token. Status: '' @
                     digits status @ '', Body: '' @ txt)))
           else
             awaiting (case b of
                BadJson m \<Rightarrow> throw m
              | NullBody \<Rightarrow> throw ''Failed to parse generated token from Humanitec response.''
              | JVal t \<Rightarrow>
                  if \<not> truthy t then
                    throw ''Failed to parse generated token from Humanitec response.''
                  else
                    andThen
                      (say [info ''Successfully generated Humanitec API token.'',
                            Console Log (tag deploymentId @
                              ''Successfully generated Humanitec API token.'')])
                      (\<lambda>_. yield (the t))))"

definition humanitecSetup :: "string \<Rightarrow> string \<Rightarrow> env \<Rightarrow> string step" where
  "humanitecSetup deploymentId name e =
     andThen (say [info ''Setting up Humanitec service user and token...'']) (\<lambda>_.
       if \<not> truthy (HUMANITEC_SERVICE_USER_API_TOKEN e) then
         throw ''Missing HUMANITEC_SERVICE_USER_API_TOKEN in environment variables.''
       else
         andThen
           (say [info (''Creating/finding Humanitec service user: '' @ serviceUserName name @ ''...''),
                 Console Log (tag deploymentId @
                   ''Attempting to create/find Humanitec service user: '' @ serviceUserName name)])
           (\<lambda>_.
         andThen
           (rethrow (createOrFindUser deploymentId name e)
              (\<lambda>m. ([Console Err (tag deploymentId @
                          ''Error during Humanitec user creation/lookup: '' @ m)],
                     ''Humanitec user setup failed: '' @ m)))
           (\<lambda>userId.
         andThen
           (rethrow (generateToken deploymentId name userId e)
              (\<lambda>m. ([Console Err (tag deploymentId @
                          ''Error during Humanitec token generation: '' @ m)],
                     ''Humanitec token setup failed: '' @ m)))
           (\<lambda>token.
         andThen (say [info ''Humanitec setup complete.'']) (\<lambda>_. yield token)))))"

subsection \<open>Application, secrets, descriptor, deployment\<close>

definition flyRegion :: "env \<Rightarrow> string" where
  "flyRegion e = orElse (FLY_REGION e) ''ams''"

definition imageName :: "env \<Rightarrow> string" where
  "imageName e = orElse (DEPLOY_IMAGE e) ''dominicwhitehumanitec/canyonchat:latest''"

definition flyOrg :: "env \<Rightarrow> string" where
  "flyOrg e = orElse (FLY_ORG e) ''personal''"

text \<open>\<^verbatim>\<open>await runCommand("flyctl", args, deploymentId, sendStatusUpdate)\<close>: the child is the one
  the world starts for this command line.\<close>

definition flyctl :: "string list \<Rightarrow> string \<Rightarrow> env \<Rightarrow> command_result step" where
  "flyctl args deploymentId e = runCommand ''flyctl'' args deploymentId (spawn e ''flyctl'' args)"

definition createArgs :: "string \<Rightarrow> env \<Rightarrow> string list" where
  "createArgs name e = [''apps'', ''create'', name, ''--org'', flyOrg e]"

definition createApp :: "string \<Rightarrow> string \<Rightarrow> env \<Rightarrow> unit step" where
  "createApp deploymentId name e =
     andThen
       (say [info (''Creating Fly app '' @ quoted name @ '' in region '' @ quoted (flyRegion e) @
               ''...'')]) (\<lambda>_.
     andThen (flyctl (createArgs name e) deploymentId e) (\<lambda>_.
     say [info (''Fly app '' @ quoted name @ '' created.'')]))"

text \<open>The entries of the \<^verbatim>\<open>secrets\<close> object, in insertion order.\<close>

definition secrets :: "formData \<Rightarrow> string \<Rightarrow> (string \<times> jsval) list" where
  "secrets fd newUserToken =
     [(''GOOGLE_API_KEY'', geminiKey fd),
      (''HUMANITEC_TOKEN'', JStr newUserToken),
      (''DEFAULT_MODEL'', JStr ''gemini-2.5-pro-preview-03-25''),
      (''ENABLE_MCP'', JStr ''true''),
      (''MINIO_ACCESS_KEY_ID'', JStr ''KNI6gzCN3ueRujNrzQj5''),
      (''MINIO_BUCKET'', JStr ''canyon-render-bucket''),
      (''MINIO_ENDPOINT'', JStr ''https://bucket-production-670c.up.railway.app:443''),
      (''MINIO_SECRET_ACCESS_KEY'', JStr ''MGtkqapxCcbYS532RQVDUA9rdhPU6Ie7NT0LKgdj''),
      (''MINIO_USE_SSL'', JStr ''true'')]"

definition secretArgs :: "string \<Rightarrow> string \<Rightarrow> string \<Rightarrow> string list" where
  "secretArgs name key val = [''secrets'', ''set'', ''-a'', name, key @ ''='' @ val]"

fun setSecrets :: "string \<Rightarrow> string \<Rightarrow> env \<Rightarrow> (string \<times> jsval) list \<Rightarrow> unit step" where
  "setSecrets deploymentId name e [] = say []"
| "setSecrets deploymentId name e ((key, val) # rest) =
     (if \<not> truthyVal val then
        andThen
          (say [info (''Skipping secret '' @ key @ '' as value is empty.''),
                Console Warn (tag deploymentId @ ''Skipping secret '' @ key @
                  '' as value is empty.'')])
          (\<lambda>_. setSecrets deploymentId name e rest)
      else
        andThen (say [info (''Setting secret '' @ key @ ''...'')]) (\<lambda>_.
        andThen (flyctl (secretArgs name key (stringOf (numberToString e) val)) deploymentId e)
          (\<lambda>_.
        andThen (say [info (''Secret '' @ key @ '' set.'')]) (\<lambda>_.
        setSecrets deploymentId name e rest))))"

definition injectSecrets :: "formData \<Rightarrow> string \<Rightarrow> string \<Rightarrow> string \<Rightarrow> env \<Rightarrow> unit step" where
  "injectSecrets fd deploymentId name newUserToken e =
     andThen (say [info ''Setting secrets in Fly app (one by one)...'']) (\<lambda>_.
     andThen (setSecrets deploymentId name e (secrets fd newUserToken)) (\<lambda>_.
     say [info ''All secrets processed.'']))"

text \<open>\<^verbatim>\<open>path.join(os.tmpdir(), `fly_${deploymentId}_${uniqueAppName}.toml`)\<close>, for a
  temporary directory that needs no normalisation: the two parts with a separator between.\<close>

definition tempPath :: "env \<Rightarrow> string \<Rightarrow> string \<Rightarrow> string" where
  "tempPath e deploymentId name =
     tmpdir e @ ''/'' @ ''fly_'' @ deploymentId @ ''_'' @ name @ ''.toml''"

definition flyTomlContent :: "string \<Rightarrow> string \<Rightarrow> string \<Rightarrow> string" where
  \<open>flyTomlContent name region img =
     nl @ ''app = "'' @ name @ ''"'' @ nl @
     ''primary_region = "'' @ region @ ''"'' @ nl @
     nl @
     ''[build]'' @ nl @
     ''  image = "'' @ img @ ''" # Specify the image to deploy'' @ nl @
     nl @
     ''[http_service]'' @ nl @
     ''  internal_port = 3000 # Port the application inside the container listens on (Reverted back to 3000 based on startup logs)'' @ nl @
     ''  force_https = true'' @ nl @
     ''  auto_stop_machines = true # Keep machines running? Set to false if needed'' @ nl @
     ''  auto_start_machines = true'' @ nl @
     ''  min_machines_running = 0 # Scale to zero when idle'' @ nl @
     nl\<close>

text \<open>The file system is a map from paths to contents. A failed write that left a file
  behind leaves it with no content.\<close>

type_synonym files = "string \<rightharpoonup> string"

definition fsWriteFile :: "env \<Rightarrow> string \<Rightarrow> string \<Rightarrow> files \<Rightarrow> files \<times> string option" where
  "fsWriteFile e path content fs =
     (case writeFile e of
        Written \<Rightarrow> (fs(path \<mapsto> content), None)
      | WriteFailed m left \<Rightarrow> ((if left then fs(path \<mapsto> []) else fs), Some m))"

text \<open>\<^verbatim>\<open>fs.unlink\<close> fails on a path that does not exist, and otherwise when the world makes it fail.\<close>

definition fsUnlink :: "env \<Rightarrow> string \<Rightarrow> files \<Rightarrow> files \<times> string option" where
  "fsUnlink e path fs =
     (if fs path = None then
        (fs, Some (''ENOENT: no such file or directory, unlink '' @ quoted path))
      else
        (case unlinkError e of
           None \<Rightarrow> (fs(path := None), None)
         | Some m \<Rightarrow> (fs, Some m)))"

definition writeEffects :: "string \<Rightarrow> string \<Rightarrow> string \<Rightarrow> env \<Rightarrow> effect list" where
  "writeEffects deploymentId name path e =
     [info (''Writing temporary fly.toml to '' @ path @ ''...''),
      Console Log (tag deploymentId @ ''Writing temporary fly.toml to '' @ path),
      WriteFile path (flyTomlContent name (flyRegion e) (imageName e)),
      Suspend]"

definition deployArgs :: "string \<Rightarrow> string \<Rightarrow> env \<Rightarrow> string list" where
  "deployArgs name path e =
     [''deploy'', ''-a'', name, ''-c'', path, ''--image'', imageName e, ''--ha=false'', ''--detach'']"

definition deployImage :: "string \<Rightarrow> string \<Rightarrow> string \<Rightarrow> env \<Rightarrow> unit step" where
  "deployImage deploymentId name path e =
     andThen
       (say [info (''Deploying image '' @ quoted (imageName e) @ '' to Fly app '' @ quoted name @
               ''...'')]) (\<lambda>_.
     andThen (flyctl (deployArgs name path e) deploymentId e) (\<lambda>_.
     say [info ''Fly deployment command initiated.'']))"

definition appUrl :: "string \<Rightarrow> string" where
  "appUrl name = ''https://'' @ name @ ''.canyon-beta.com''"

definition succeeded :: "string \<Rightarrow> string \<Rightarrow> effect list" where
  "succeeded deploymentId name =
     [sendUpdate (''Deployment successful! App should be available shortly at: '' @ appUrl name)
        False True (Some (appUrl name)),
      Console Log (tag deploymentId @
        ''Deployment process completed successfully. App URL: '' @ appUrl name)]"

subsection \<open>The three blocks\<close>

text \<open>
  The two locals that the \<^verbatim>\<open>catch\<close> and \<^verbatim>\<open>finally\<close> blocks read, the effects so far, the
  file system, and the message of the error the \<^verbatim>\<open>try\<close> block threw, if it threw.
\<close>

record run =
  uniqueAppName :: string
  tempFlyTomlPath :: string
  trace :: "effect list"
  files :: files
  thrown :: "string option"

definition tryBlock :: "formData \<Rightarrow> string \<Rightarrow> env \<Rightarrow> files \<Rightarrow> run" where
  "tryBlock fd deploymentId e fs =
     (case deriveName fd deploymentId e of
        (tr1, Inl m) \<Rightarrow>
          \<lparr>uniqueAppName = [], tempFlyTomlPath = [], trace = tr1, files = fs, thrown = Some m\<rparr>
      | (tr1, Inr name) \<Rightarrow>
          (case andThen (humanitecSetup deploymentId name e) (\<lambda>newUserToken.
                andThen (createApp deploymentId name e) (\<lambda>_.
                injectSecrets fd deploymentId name newUserToken e)) of
             (tr2, Inl m) \<Rightarrow>
               \<lparr>uniqueAppName = name, tempFlyTomlPath = [], trace = tr1 @ tr2, files = fs,
                thrown = Some m\<rparr>
           | (tr2, Inr _) \<Rightarrow>
               (let path = tempPath e deploymentId name;
                    tr3 = writeEffects deploymentId name path e;
                    written = fsWriteFile e path (flyTomlContent name (flyRegion e) (imageName e)) fs
                in case snd written of
                     Some m \<Rightarrow>
                       \<lparr>uniqueAppName = name, tempFlyTomlPath = path, trace = tr1 @ tr2 @ tr3,
                        files = fst written, thrown = Some m\<rparr>
                   | None \<Rightarrow>
                       (case andThen (deployImage deploymentId name path e)
                               (\<lambda>_. say (succeeded deploymentId name)) of
                          (tr4, r) \<Rightarrow>
                            \<lparr>uniqueAppName = name, tempFlyTomlPath = path,
                             trace = tr1 @ tr2 @ tr3 @ tr4, files = fst written,
                             thrown = (case r of Inl m \<Rightarrow> Some m | Inr _ \<Rightarrow> None)\<rparr>))))"

definition destroyArgs :: "string \<Rightarrow> string list" where
  "destroyArgs name = [''apps'', ''destroy'', name, ''--yes'']"

definition cleanup :: "string \<Rightarrow> string \<Rightarrow> env \<Rightarrow> effect list" where
  "cleanup errorContext name e =
     [info (''Attempting to clean up failed deployment for app '' @ name @ ''...''),
      Console Log (tag errorContext @ ''Attempting to clean up app '' @ name @ ''...'')] @
     (case flyctl (destroyArgs name) errorContext e of
        (tr, Inr _) \<Rightarrow>
          tr @ [info (''Cleaned up failed app '' @ name @ ''.''),
                Console Log (tag errorContext @ ''Cleaned up app '' @ name @ ''.'')]
      | (tr, Inl m) \<Rightarrow>
          tr @ [failure (''Failed to cleanup app '' @ name @ '': '' @ m),
                Console Err (tag errorContext @ ''Failed to cleanup app '' @ name @ '': '' @ m)])"

definition catchBlock :: "string \<Rightarrow> string \<Rightarrow> env \<Rightarrow> run \<Rightarrow> run" where
  "catchBlock m deploymentId e r =
     (let errorContext = (if uniqueAppName r \<noteq> [] then uniqueAppName r else deploymentId)
      in r\<lparr>trace := trace r @
             [Console Err (tag errorContext @ ''Deployment Error: '' @ m),
              sendUpdate (''Deployment failed: '' @ m) True True None] @
             (if uniqueAppName r \<noteq> [] then cleanup errorContext (uniqueAppName r) e else [])\<rparr>)"

definition finallyBlock :: "string \<Rightarrow> env \<Rightarrow> run \<Rightarrow> run" where
  "finallyBlock deploymentId e r =
     (if tempFlyTomlPath r \<noteq> [] then
        (let removed = fsUnlink e (tempFlyTomlPath r) (files r)
         in r\<lparr>trace := trace r @
                [Console Log (tag deploymentId @ ''Cleaning up temporary config file '' @
                   tempFlyTomlPath r),
                 Unlink (tempFlyTomlPath r),
                 Suspend,
                 (case snd removed of
                    None \<Rightarrow> Console Log (tag deploymentId @ ''Temporary config file removed.'')
                  | Some m \<Rightarrow>
                      Console Err (tag deploymentId @
                        ''Warning: Failed to remove temporary config file '' @
                        tempFlyTomlPath r @ '': '' @ m))],
              files := fst removed\<rparr>)
      else r)"

definition tryCatch :: "formData \<Rightarrow> string \<Rightarrow> env \<Rightarrow> files \<Rightarrow> run" where
  "tryCatch fd deploymentId e fs =
     (let r = tryBlock fd deploymentId e fs
      in case thrown r of
           None \<Rightarrow> r
         | Some m \<Rightarrow> catchBlock m deploymentId e r)"

definition startDeployment :: "formData \<Rightarrow> string \<Rightarrow> env \<Rightarrow> files \<Rightarrow> run" where
  "startDeployment fd deploymentId e fs =
     finallyBlock deploymentId e (tryCatch fd deploymentId e fs)"


section \<open>The progress channel and the entry point: \<^verbatim>\<open>server.js\<close>\<close>

text \<open>
  The registry \<open>clients\<close> maps a deployment identifier to a response object. Response
  objects are numbered as the requests arrive; \<open>streams\<close> remembers the identifier that the
  \<^verbatim>\<open>close\<close> handler of each streaming request captured, \<open>wire\<close> what was written to which
  response for which identifier, in order, and \<open>ended\<close> the responses that were ended.
  The console lines of the server are not part of the state. The registry is a plain
  object; the identifiers of the model are the ones that \<^verbatim>\<open>POST /deploy\<close> hands out and the
  path segments that clients send, none of which is taken to be the name of a property
  that every object inherits, such as \<^verbatim>\<open>constructor\<close>.
\<close>

record server =
  clients :: "string \<rightharpoonup> nat"
  streams :: "nat \<rightharpoonup> string"
  wire :: "(string \<times> nat \<times> event) list"
  ended :: "nat list"
  responses :: nat

definition idle :: server where
  "idle = \<lparr>clients = Map.empty, streams = Map.empty, wire = [], ended = [], responses = 0\<rparr>"

definition sendStatusUpdate ::
  "string \<Rightarrow> string \<Rightarrow> bool \<Rightarrow> bool \<Rightarrow> string option \<Rightarrow> server \<Rightarrow> server" where
  "sendStatusUpdate deploymentId m err compl d srv =
     (case clients srv deploymentId of
        Some res \<Rightarrow>
          (let srv' = srv\<lparr>wire := wire srv @
                  [(deploymentId, res,
                    \<lparr>message = m, isError = err, isComplete = compl, data = d\<rparr>)]\<rparr>
           in if compl then
                srv'\<lparr>ended := ended srv' @ [res],
                     clients := (clients srv')(deploymentId := None)\<rparr>
              else srv')
      | None \<Rightarrow> srv)"

datatype reply = Reply nat string | EventStream nat | NotFound

text \<open>The handler of \<^verbatim>\<open>/status/:deploymentId\<close>. The greeting is written without a \<open>data\<close>
  key, which the event record shows as no payload.\<close>

definition connected :: event where
  "connected =
     \<lparr>message = ''Connected to status updates.'', isError = False, isComplete = False,
      data = None\<rparr>"

definition statusHandler :: "string \<Rightarrow> server \<Rightarrow> server \<times> reply" where
  "statusHandler deploymentId srv =
     (if deploymentId = [] then (srv, Reply 400 ''Missing deployment ID'')
      else
        (srv\<lparr>clients := (clients srv)(deploymentId \<mapsto> responses srv),
             streams := (streams srv)(responses srv \<mapsto> deploymentId),
             wire := wire srv @ [(deploymentId, responses srv, connected)],
             responses := responses srv + 1\<rparr>,
         EventStream (responses srv)))"

text \<open>
  \<^verbatim>\<open>GET /status/\<close> followed by the identifier, as the server answers it. A path without
  identifier does not match the route, so the handler is not called with an empty one: the
  request falls through and is answered with status 404 (\<open>NotFound\<close>), by the catch-all
  route in production and by the framework otherwise.
\<close>

definition statusGet :: "string \<Rightarrow> server \<Rightarrow> server \<times> reply" where
  "statusGet deploymentId srv =
     (if deploymentId = [] then (srv, NotFound) else statusHandler deploymentId srv)"

text \<open>The \<^verbatim>\<open>close\<close> handler of a streaming request.\<close>

definition requestClosed :: "nat \<Rightarrow> server \<Rightarrow> server" where
  "requestClosed res srv =
     (case streams srv res of
        None \<Rightarrow> srv
      | Some deploymentId \<Rightarrow>
          srv\<lparr>clients := (clients srv)(deploymentId := None), ended := ended srv @ [res]\<rparr>)"

text \<open>The turns of a run: what it publishes between two suspensions, turn by turn.\<close>

fun segments :: "effect list \<Rightarrow> effect list list" where
  "segments [] = [[]]"
| "segments (Suspend # tr) = [] # segments tr"
| "segments (x # tr) = (case segments tr of [] \<Rightarrow> [[x]] | seg # segs \<Rightarrow> (x # seg) # segs)"

definition turns :: "run \<Rightarrow> event list list" where
  "turns r = map events (segments (trace r))"

text \<open>The callback that \<^verbatim>\<open>POST /deploy\<close> hands to the run, called for each event of a list.\<close>

definition publish :: "string \<Rightarrow> event list \<Rightarrow> server \<Rightarrow> server" where
  "publish deploymentId evs srv =
     foldl (\<lambda>s ev. sendStatusUpdate deploymentId (message ev) (isError ev) (isComplete ev)
                   (data ev) s) srv evs"

text \<open>
  \<^verbatim>\<open>POST /deploy\<close>: the server after the handler, the reply, and the run that was started,
  if one was. The handler tests the two fields for truthiness. It calls
  \<^verbatim>\<open>startDeployment\<close>, which runs its first turn at once, before the handler replies with
  the identifier; the later turns of the run come when the event loop reaches them. The
  run never rejects, so the \<^verbatim>\<open>.catch\<close> of the handler is dead.
\<close>

definition missingFields :: string where
  \<open>missingFields = ''{"error":"Missing required form fields (Organization Name, Gemini Key)."}''\<close>

definition accepted :: "string \<Rightarrow> string" where
  \<open>accepted deploymentId = ''{"deploymentId":"'' @ deploymentId @ ''"}''\<close>

text \<open>The test of the handler: \<^verbatim>\<open>!formData.orgName || !formData.geminiKey\<close>.\<close>

definition invalid :: "formData \<Rightarrow> bool" where
  "invalid fd = (\<not> truthyVal (orgName fd) \<or> \<not> truthyVal (geminiKey fd))"

definition deployPost ::
  "formData \<Rightarrow> string \<Rightarrow> env \<Rightarrow> files \<Rightarrow> server \<Rightarrow> server \<times> reply \<times> run option" where
  "deployPost fd uuid e fs srv =
     (if invalid fd then
        (srv, Reply 400 missingFields, None)
      else
        (publish uuid (hd (turns (startDeployment fd uuid e fs))) srv,
         Reply 202 (accepted uuid),
         Some (startDeployment fd uuid e fs)))"

text \<open>What happens to the channel over time: subscribers attach, requests close, and the
  callback of a run publishes.\<close>

datatype action = GetStatus string | RequestClosed nat | Update string event

fun perform :: "server \<Rightarrow> action \<Rightarrow> server" where
  "perform srv (GetStatus deploymentId) = fst (statusGet deploymentId srv)"
| "perform srv (RequestClosed res) = requestClosed res srv"
| "perform srv (Update deploymentId ev) =
     sendStatusUpdate deploymentId (message ev) (isError ev) (isComplete ev) (data ev) srv"

definition serve :: "action list \<Rightarrow> server \<Rightarrow> server" where
  "serve acts srv = foldl perform srv acts"

fun updates :: "string \<Rightarrow> action list \<Rightarrow> event list" where
  "updates deploymentId [] = []"
| "updates deploymentId (Update i ev # acts) =
     (if i = deploymentId then ev # updates deploymentId acts else updates deploymentId acts)"
| "updates deploymentId (_ # acts) = updates deploymentId acts"


definition delivered :: "string \<Rightarrow> server \<Rightarrow> event list" where
  "delivered deploymentId srv =
     map (\<lambda>w. snd (snd w)) (filter (\<lambda>w. fst w = deploymentId) (wire srv))"


section \<open>Vocabulary of the proofs\<close>

text \<open>
  An effect is routine when it is a progress event that neither completes the stream nor
  carries a payload, a console line, a command or a request; writing and deleting a file
  are not.
\<close>

fun routine :: "effect \<Rightarrow> bool" where
  "routine (Publish ev) = (\<not> isComplete ev \<and> data ev = None)"
| "routine (WriteFile p c) = False"
| "routine (Unlink p) = False"
| "routine _ = True"

text \<open>A progress event as the callback's default arguments make it.\<close>

definition progress :: "string \<Rightarrow> event" where
  "progress m = \<lparr>message = m, isError = False, isComplete = False, data = None\<rparr>"


section \<open>Concrete worlds\<close>

text \<open>
  The request of the specification's scenarios, and worlds for it: one in which every step
  succeeds, one in which setting the third secret is refused, one without the administrative
  token, one in which the name of the application is taken, one in which the descriptor
  cannot be deleted, and one in which the request that creates the service user does not
  get through. The request holds strings only, so how the host prints a number plays no
  part in these worlds.
\<close>

definition quietChild :: proc where
  "quietChild = \<lparr>chunks = [], ending = Close (Some 0)\<rparr>"

definition acmeForm :: formData where
  "acmeForm = \<lparr>orgName = JStr ''Acme Inc!'', geminiKey = JStr ''k''\<rparr>"

definition happyWorld :: env where
  "happyWorld =
     \<lparr>random = 1/2,
      HUMANITEC_SERVICE_USER_API_TOKEN = Some ''admin'',
      FLY_REGION = None, DEPLOY_IMAGE = None, FLY_ORG = None,
      tmpdir = ''/tmp'',
      createUser = Responded 201 [] (JVal (Some ''u1'')),
      getUsers = Rejected ''unused'',
      createToken = Responded 201 [] (JVal (Some ''t1'')),
      spawn = (\<lambda>c a. quietChild),
      writeFile = Written,
      unlinkError = None,
      numberToString = (\<lambda>r. ''NaN'')\<rparr>"

definition refusingChild :: proc where
  "refusingChild = \<lparr>chunks = [Stderr ''Error: unauthorized''], ending = Close (Some 1)\<rparr>"

definition thirdSecretWorld :: env where
  "thirdSecretWorld =
     happyWorld\<lparr>spawn := (\<lambda>c a.
        if a = secretArgs ''acme-inc--5500'' ''DEFAULT_MODEL'' ''gemini-2.5-pro-preview-03-25''
        then refusingChild else quietChild)\<rparr>"

definition tokenlessWorld :: env where
  "tokenlessWorld = happyWorld\<lparr>HUMANITEC_SERVICE_USER_API_TOKEN := None\<rparr>"

definition takenChild :: proc where
  "takenChild =
     \<lparr>chunks = [Stderr ''Error: Validation failed: Name has already been taken''],
      ending = Close (Some 1)\<rparr>"

definition takenWorld :: env where
  "takenWorld =
     happyWorld\<lparr>spawn := (\<lambda>c a.
        if a = [''apps'', ''create'', ''acme-inc--5500'', ''--org'', ''personal'']
        then takenChild else quietChild)\<rparr>"

definition stickyWorld :: env where
  "stickyWorld = happyWorld\<lparr>unlinkError := Some ''EPERM: operation not permitted''\<rparr>"

definition unreachableWorld :: env where
  "unreachableWorld = happyWorld\<lparr>createUser := Rejected ''fetch failed''\<rparr>"


section \<open>Properties of the strings\<close>

lemma last_dropWhile: "dropWhile P zs \<noteq> [] \<Longrightarrow> last (dropWhile P zs) = last zs"
  by (induction zs) (auto split: if_splits)

lemma trim_ends:
  assumes "trim d \<noteq> []"
  shows "\<not> is_ws (hd (trim d))" and "\<not> is_ws (last (trim d))"
proof -
  let ?xs = "dropWhile is_ws d"
  let ?ys = "dropWhile is_ws (rev ?xs)"
  from assms have ys: "?ys \<noteq> []" by (simp add: trim_def)
  have xs: "?xs \<noteq> []"
  proof
    assume a: "?xs = []"
    have "?ys = []" unfolding a by simp
    with ys show False by simp
  qed
  have "hd (trim d) = last ?ys" using ys by (simp add: trim_def hd_rev)
  also have "\<dots> = last (rev ?xs)" using ys by (rule last_dropWhile)
  also have "\<dots> = hd ?xs" using xs by (simp add: last_rev)
  finally show "\<not> is_ws (hd (trim d))" using xs hd_dropWhile by metis
  have "last (trim d) = hd ?ys" using ys by (simp add: trim_def last_rev)
  then show "\<not> is_ws (last (trim d))" using ys hd_dropWhile by metis
qed

lemma digits_small: "n < 10 \<Longrightarrow> digits n = [''0123456789'' ! n]"
  by simp

lemma digits_step: "10 \<le> n \<Longrightarrow> digits n = digits (n div 10) @ [''0123456789'' ! (n mod 10)]"
  by simp

lemma digits_length4:
  assumes "1000 \<le> n" "n \<le> 9999"
  shows "length (digits n) = 4"
proof -
  have a: "digits n = digits (n div 10) @ [''0123456789'' ! (n mod 10)]" using assms by (intro digits_step) simp
  have b: "digits (n div 10) = digits (n div 10 div 10) @ [''0123456789'' ! (n div 10 mod 10)]" using assms by (intro digits_step) simp
  have c: "digits (n div 10 div 10) = digits (n div 10 div 10 div 10) @ [''0123456789'' ! (n div 10 div 10 mod 10)]" using assms by (intro digits_step) simp
  have d: "digits (n div 10 div 10 div 10) = [''0123456789'' ! (n div 10 div 10 div 10)]" using assms by (intro digits_small) simp
  show ?thesis by (simp only: a b c d) simp
qed

lemma digit_char: "k < 10 \<Longrightarrow> ''0123456789'' ! k \<in> set ''0123456789''"
  by (rule nth_mem) simp

lemma digits_are_digits: "set (digits n) \<subseteq> set ''0123456789''"
proof (induction n rule: digits.induct)
  case (1 n)
  show ?case
  proof (cases "n < 10")
    case True
    then show ?thesis using digit_char[of n] by (simp del: digits.simps add: digits_small)
  next
    case False
    have "n mod 10 < 10" by simp
    then have "''0123456789'' ! (n mod 10) \<in> set ''0123456789''" by (rule digit_char)
    with False 1 show ?thesis by (simp del: digits.simps add: digits_step)
  qed
qed

lemma suffix_range:
  assumes "0 \<le> (r::real)" "r < 1"
  shows "1000 \<le> \<lfloor>1000 + r * 9000\<rfloor>" "\<lfloor>1000 + r * 9000\<rfloor> \<le> 9999"
proof -
  show "1000 \<le> \<lfloor>1000 + r * 9000\<rfloor>" using assms by (simp add: le_floor_iff)
  have "1000 + r * 9000 < 10000" using assms by simp
  then have "\<lfloor>1000 + r * 9000\<rfloor> < 10000" by (simp add: floor_less_iff)
  then show "\<lfloor>1000 + r * 9000\<rfloor> \<le> 9999" by simp
qed

lemma sanitized_length: "length (sanitizedOrgName org) \<le> 40"
  by (simp add: sanitizedOrgName_def)

lemma sanitized_allowed: "list_all allowed (sanitizedOrgName org)"
proof -
  have hyphen: "allowed (CHR ''-'')" by (simp add: allowed_def)
  have "list_all allowed (replaceDisallowed s)" for s
    by (induction s) (simp_all add: replaceDisallowed_def hyphen)
  then show ?thesis
    unfolding sanitizedOrgName_def list_all_iff using in_set_takeD by fast
qed

lemma acme: "sanitizedOrgName ''Acme Inc!'' = ''acme-inc-''"
  by (simp add: sanitizedOrgName_def replaceDisallowed_def toLowerCase_def lowerChar_def
        upperCase_def lowerCase_def allowed_def)

lemma acme_half: "appNameOf ''Acme Inc!'' (1/2) = ''acme-inc--5500''"
  by (simp add: appNameOf_def acme randomSuffix_def showInt_def)


section \<open>Properties of the command execution wrapper\<close>

lemma events_append: "events (a @ b) = events a @ events b"
  by (induction a rule: events.induct) auto

lemma collected_stdout:
  "stdoutData (foldl (on_data i) w cs) =
     stdoutData w @
     concat (map (\<lambda>ch. case ch of
                      Stdout d \<Rightarrow> (if trim d = [] then [] else trim d @ nl)
                    | Stderr d \<Rightarrow> []) cs)"
  by (induction cs arbitrary: w) (auto simp: Let_def split: chunk.splits)

lemma collected_stderr:
  "stderrData (foldl (on_data i) w cs) =
     stderrData w @
     concat (map (\<lambda>ch. case ch of
                      Stdout d \<Rightarrow> []
                    | Stderr d \<Rightarrow> (if trim d = [] then [] else trim d @ nl)) cs)"
  by (induction cs arbitrary: w) (auto simp: Let_def split: chunk.splits)

lemma collected_events:
  "events (emitted (foldl (on_data i) w cs)) =
     events (emitted w) @
     concat (map (\<lambda>ch. case ch of
          Stdout d \<Rightarrow>
            (if trim d = [] then []
             else [\<lparr>message = ''[stdout] '' @ trim d, isError = False, isComplete = False,
                    data = None\<rparr>])
        | Stderr d \<Rightarrow>
            (if trim d = [] then []
             else [\<lparr>message = ''[stderr] '' @ trim d, isError = False, isComplete = False,
                    data = None\<rparr>])) cs)"
  by (induction cs arbitrary: w)
     (auto simp: Let_def events_append info_def sendUpdate_def split: chunk.splits)

text \<open>The marks of the turns change neither what the wrapper accumulates nor what it
  publishes.\<close>

lemma on_data_turn:
  "stdoutData (on_data i (turn w) ch) = stdoutData (on_data i w ch)"
  "stderrData (on_data i (turn w) ch) = stderrData (on_data i w ch)"
  "events (emitted (on_data i (turn w) ch)) = events (emitted (on_data i w ch))"
  by (cases ch; simp add: turn_def Let_def events_append)+

lemma turn_fields:
  "stdoutData (turn w) = stdoutData w"
  "stderrData (turn w) = stderrData w"
  "events (emitted (turn w)) = events (emitted w)"
  by (simp_all add: turn_def events_append)

lemma arrived_stdout:
  "stdoutData (foldl (arrive i) w cs) = stdoutData (foldl (on_data i) w cs)"
proof (induction cs arbitrary: w)
  case Nil
  show ?case by simp
next
  case (Cons ch cs)
  show ?case
    by (simp add: Cons.IH) (simp add: collected_stdout arrive_def on_data_turn)
qed

lemma arrived_stderr:
  "stderrData (foldl (arrive i) w cs) = stderrData (foldl (on_data i) w cs)"
proof (induction cs arbitrary: w)
  case Nil
  show ?case by simp
next
  case (Cons ch cs)
  show ?case
    by (simp add: Cons.IH) (simp add: collected_stderr arrive_def on_data_turn)
qed

lemma arrived_events:
  "events (emitted (foldl (arrive i) w cs)) = events (emitted (foldl (on_data i) w cs))"
proof (induction cs arbitrary: w)
  case Nil
  show ?case by simp
next
  case (Cons ch cs)
  show ?case
    by (simp add: Cons.IH) (simp add: collected_events arrive_def on_data_turn)
qed

text \<open>
  Claim C7. When the child exits with code zero the wrapper resolves with the accumulated
  standard output, the accumulated standard error and the exit code. When it exits with
  another code the wrapper rejects with an error whose message holds the command string,
  the exit code and the captured standard error (the word None when nothing was captured).
  When the child cannot be started the wrapper rejects with a message of its own, which
  holds the command string and the launch error and no exit code, and which differs from
  the outcome of every exit.
\<close>

theorem runCommand_settles:
  \<open>snd (runCommand c a i \<lparr>chunks = cs, ending = Close (Some 0)\<rparr>) =
      Inr \<lparr>stdout = stdoutData (foldl (on_data i) (started c a i) cs),
           stderr = stderrData (foldl (on_data i) (started c a i) cs),
           exitCode = 0\<rparr>
    \<and> (n \<noteq> 0 \<longrightarrow>
        snd (runCommand c a i \<lparr>chunks = cs, ending = Close (Some n)\<rparr>) =
          Inl (''Command "'' @ commandString c a @ ''" failed with exit code '' @ showInt n @
               ''. Stderr: '' @
               (if stderrData (foldl (on_data i) (started c a i) cs) = [] then ''None''
                else stderrData (foldl (on_data i) (started c a i) cs))))
    \<and> snd (runCommand c a i \<lparr>chunks = cs, ending = SpawnError m\<rparr>) =
        Inl (''Failed to start command "'' @ commandString c a @ ''": '' @ m)
    \<and> snd (runCommand c a i \<lparr>chunks = cs, ending = SpawnError m\<rparr>) \<noteq>
        snd (runCommand c a i \<lparr>chunks = cs, ending = Close code\<rparr>)\<close>
  by (cases "code = Some 0")
     (simp_all add: runCommand_def failedMessage_def startMessage_def showCode_def turn_fields
        arrived_stdout arrived_stderr)

text \<open>The failing exit at a concrete child: exit code 1 after a line on each stream.\<close>

theorem runCommand_settles_witness:
  \<open>(1::int) \<noteq> 0
    \<and> snd (runCommand ''flyctl'' [''apps'', ''create'', ''acme-1234''] ''d1''
          \<lparr>chunks = [Stdout ''hello'', Stderr (''  name taken '' @ nl)], ending = Close (Some 1)\<rparr>) =
        Inl (''Command "flyctl apps create acme-1234" failed with exit code 1. Stderr: name taken'' @ nl)\<close>
  using runCommand_settles [of "''flyctl''" "[''apps'', ''create'', ''acme-1234'']" "''d1''"
      "[Stdout ''hello'', Stderr (''  name taken '' @ nl)]" 1 "''x''" "None"]
  by (simp add: started_def commandString_def trim_def is_ws_def nl_def showInt_def Let_def)

text \<open>
  Claim C10. Between the opening event and the closing event of a command the callback is
  called once for each chunk whose trimmed text is not empty, and for no other chunk, with
  the trimmed text behind the tag of its stream. What the result accumulates for a stream
  is, for each such chunk of that stream in order, the trimmed text and one newline. A
  chunk of white space alone adds neither an event nor output, and a trimmed text neither
  begins nor ends with white space.
\<close>

theorem runCommand_chunks:
  \<open>butlast (events (fst (runCommand c a i \<lparr>chunks = cs, ending = en\<rparr>))) =
      \<lparr>message = ''Executing: '' @ commandString c a @ ''...'', isError = False,
       isComplete = False, data = None\<rparr> #
      concat (map (\<lambda>ch. case ch of
          Stdout d \<Rightarrow>
            (if trim d = [] then []
             else [\<lparr>message = ''[stdout] '' @ trim d, isError = False, isComplete = False,
                    data = None\<rparr>])
        | Stderr d \<Rightarrow>
            (if trim d = [] then []
             else [\<lparr>message = ''[stderr] '' @ trim d, isError = False, isComplete = False,
                    data = None\<rparr>])) cs)
    \<and> snd (runCommand c a i \<lparr>chunks = cs, ending = Close (Some 0)\<rparr>) =
        Inr \<lparr>stdout = concat (map (\<lambda>ch. case ch of
                           Stdout d \<Rightarrow> (if trim d = [] then [] else trim d @ nl)
                         | Stderr d \<Rightarrow> []) cs),
             stderr = concat (map (\<lambda>ch. case ch of
                           Stdout d \<Rightarrow> []
                         | Stderr d \<Rightarrow> (if trim d = [] then [] else trim d @ nl)) cs),
             exitCode = 0\<rparr>
    \<and> (trim d \<noteq> [] \<longrightarrow> \<not> is_ws (hd (trim d)) \<and> \<not> is_ws (last (trim d)))\<close>
proof (intro conjI impI)
  show "\<not> is_ws (hd (trim d))" if "trim d \<noteq> []" using that by (rule trim_ends)
  show "\<not> is_ws (last (trim d))" if "trim d \<noteq> []" using that by (rule trim_ends)
  show "snd (runCommand c a i \<lparr>chunks = cs, ending = Close (Some 0)\<rparr>) =
        Inr \<lparr>stdout = concat (map (\<lambda>ch. case ch of
                           Stdout d \<Rightarrow> (if trim d = [] then [] else trim d @ nl)
                         | Stderr d \<Rightarrow> []) cs),
             stderr = concat (map (\<lambda>ch. case ch of
                           Stdout d \<Rightarrow> []
                         | Stderr d \<Rightarrow> (if trim d = [] then [] else trim d @ nl)) cs),
             exitCode = 0\<rparr>"
    by (simp add: runCommand_def turn_fields arrived_stdout arrived_stderr collected_stdout
          collected_stderr started_def)
  have fin: "\<exists>ev. events (fst (on_end s i w en)) = events (emitted w) @ [ev]" for s w
    by (cases en) (simp_all add: events_append info_def failure_def sendUpdate_def)
  from fin [of "commandString c a" "turn (foldl (arrive i) (started c a i) cs)"]
  obtain ev where
    "events (fst (runCommand c a i \<lparr>chunks = cs, ending = en\<rparr>)) =
       events (emitted (turn (foldl (arrive i) (started c a i) cs))) @ [ev]"
    unfolding runCommand_def by auto
  then have
    "events (fst (runCommand c a i \<lparr>chunks = cs, ending = en\<rparr>)) =
       events (emitted (foldl (on_data i) (started c a i) cs)) @ [ev]"
    by (simp only: turn_fields arrived_events)
  then show "butlast (events (fst (runCommand c a i \<lparr>chunks = cs, ending = en\<rparr>))) =
      \<lparr>message = ''Executing: '' @ commandString c a @ ''...'', isError = False,
       isComplete = False, data = None\<rparr> #
      concat (map (\<lambda>ch. case ch of
          Stdout d \<Rightarrow>
            (if trim d = [] then []
             else [\<lparr>message = ''[stdout] '' @ trim d, isError = False, isComplete = False,
                    data = None\<rparr>])
        | Stderr d \<Rightarrow>
            (if trim d = [] then []
             else [\<lparr>message = ''[stderr] '' @ trim d, isError = False, isComplete = False,
                    data = None\<rparr>])) cs)"
    by (simp add: collected_events started_def info_def sendUpdate_def)
qed

text \<open>Three chunks, one of them blank, at a concrete child.\<close>

theorem runCommand_chunks_witness:
  \<open>trim (''  name taken '' @ nl) \<noteq> []
    \<and> \<not> is_ws (hd (trim (''  name taken '' @ nl)))
    \<and> \<not> is_ws (last (trim (''  name taken '' @ nl)))
    \<and> map message (butlast (events (fst (runCommand ''flyctl'' [''apps'', ''create'', ''acme-1234''] ''d1''
          \<lparr>chunks = [Stdout ''hello'', Stdout ('' '' @ nl), Stderr (''  name taken '' @ nl)],
           ending = Close (Some 0)\<rparr>)))) =
        [''Executing: flyctl apps create acme-1234...'', ''[stdout] hello'', ''[stderr] name taken'']\<close>
  using runCommand_chunks [of "''flyctl''" "[''apps'', ''create'', ''acme-1234'']" "''d1''"
      "[Stdout ''hello'', Stdout ('' '' @ nl), Stderr (''  name taken '' @ nl)]" "Close (Some 0)"
      "''  name taken '' @ nl"]
  by (simp add: started_def commandString_def trim_def is_ws_def nl_def completedMessage_def
        info_def sendUpdate_def)


section \<open>Properties of the name derivation\<close>

text \<open>
  Claim C4 as the specification states it fails: the exclamation mark of the organization
  name becomes a hyphen too, and the separator follows it, so four digits never come
  directly behind \<^verbatim>\<open>acme-inc-\<close>.
\<close>

theorem appName_counterexample:
  "\<not> (\<exists>d. appNameOf ''Acme Inc!'' (1/2) = ''acme-inc-'' @ d \<and> length d = 4
          \<and> set d \<subseteq> set ''0123456789'')"
  by (auto simp: acme_half)

text \<open>
  Claim C4, amended. For the organization name \<^verbatim>\<open>Acme Inc!\<close> and every random number in
  the unit interval the derived name is \<^verbatim>\<open>acme-inc--\<close> followed by the suffix, 14 characters
  in all. In general the suffix has four decimal digits, the sanitized part has at most 40
  characters, all of them lower-case letters, digits or hyphens, and the derived name, the
  sanitized part, a hyphen and the suffix, has at most 45 characters.
\<close>

theorem appName_shape:
  assumes "0 \<le> r" and "r < 1"
  shows "appNameOf ''Acme Inc!'' r = ''acme-inc--'' @ randomSuffix r
    \<and> length (appNameOf ''Acme Inc!'' r) = 14
    \<and> length (randomSuffix r) = 4
    \<and> set (randomSuffix r) \<subseteq> set ''0123456789''
    \<and> length (sanitizedOrgName org) \<le> 40
    \<and> list_all allowed (sanitizedOrgName org)
    \<and> appNameOf org r = sanitizedOrgName org @ ''-'' @ randomSuffix r
    \<and> length (appNameOf org r) \<le> 45"
proof -
  from assms have lo: "1000 \<le> \<lfloor>1000 + r * 9000\<rfloor>" and hi: "\<lfloor>1000 + r * 9000\<rfloor> \<le> 9999"
    by (rule suffix_range)+
  from lo have "\<not> \<lfloor>1000 + r * 9000\<rfloor> < 0" by linarith
  then have suffix: "randomSuffix r = digits (nat \<lfloor>1000 + r * 9000\<rfloor>)"
    by (simp only: randomSuffix_def showInt_def if_False)
  have len: "length (randomSuffix r) = 4"
    unfolding suffix using lo hi by (intro digits_length4) linarith+
  have dig: "set (randomSuffix r) \<subseteq> set ''0123456789''"
    unfolding suffix by (rule digits_are_digits)
  have san: "length (sanitizedOrgName org) \<le> 40" by (rule sanitized_length)
  show ?thesis
    using len dig san sanitized_allowed [of org] by (simp add: appNameOf_def acme)
qed

text \<open>The random number one half gives the suffix 5500.\<close>

theorem appName_shape_witness:
  "(0::real) \<le> 1/2 \<and> (1/2::real) < 1 \<and> appNameOf ''Acme Inc!'' (1/2) = ''acme-inc--5500''
     \<and> length (appNameOf ''Acme Inc!'' (1/2)) = 14"
  using appName_shape [of "1/2" "''Acme Inc!''"]
  by (simp add: randomSuffix_def showInt_def)


section \<open>Properties of the orchestrator\<close>

subsection \<open>Every step before the last event is routine\<close>

lemma commands_append: "commands (a @ b) = commands a @ commands b"
  by (induction a rule: commands.induct) auto

lemma unlinks_append: "unlinks (a @ b) = unlinks a @ unlinks b"
  by (induction a rule: unlinks.induct) auto

lemma fileWrites_append: "fileWrites (a @ b) = fileWrites a @ fileWrites b"
  by (induction a rule: fileWrites.induct) auto

lemma consoleFree_append: "consoleFree (a @ b) = consoleFree a @ consoleFree b"
  by (induction a rule: consoleFree.induct) auto

lemma routine_info: "routine (info m)" and routine_failure: "routine (failure m)"
  by (simp_all add: info_def failure_def sendUpdate_def)

lemma routine_events: "list_all routine tr \<Longrightarrow> list_all (\<lambda>ev. \<not> isComplete ev \<and> data ev = None) (events tr)"
  by (induction tr rule: events.induct) auto

lemma routine_unlinks: "list_all routine tr \<Longrightarrow> unlinks tr = []"
  by (induction tr rule: unlinks.induct) auto

lemma routine_fileWrites: "list_all routine tr \<Longrightarrow> fileWrites tr = []"
  by (induction tr rule: fileWrites.induct) auto

lemma routine_on_data:
  "list_all routine (emitted w) \<Longrightarrow> list_all routine (emitted (on_data i w ch))"
  by (cases ch) (simp_all add: Let_def routine_info)

lemma routine_turn: "list_all routine (emitted w) \<Longrightarrow> list_all routine (emitted (turn w))"
  by (simp add: turn_def)

lemma routine_arrived:
  "list_all routine (emitted w) \<Longrightarrow> list_all routine (emitted (foldl (arrive i) w cs))"
  by (induction cs arbitrary: w) (simp_all add: arrive_def routine_on_data routine_turn)

lemma routine_on_end: "list_all routine (emitted w) \<Longrightarrow> list_all routine (fst (on_end s i w en))"
  by (cases en) (simp_all add: routine_info routine_failure)

lemma routine_runCommand: "list_all routine (fst (runCommand c a i p))"
  unfolding runCommand_def
  by (intro routine_on_end routine_turn routine_arrived) (simp add: started_def routine_info)

lemma routine_flyctl: "list_all routine (fst (flyctl a i e))"
  by (simp add: flyctl_def routine_runCommand)

lemma routine_andThen:
  "list_all routine (fst (andThen m f)) \<longleftrightarrow>
     list_all routine (fst m) \<and>
     (case snd m of Inl _ \<Rightarrow> True | Inr x \<Rightarrow> list_all routine (fst (f x)))"
  by (auto simp: andThen_def split: prod.splits sum.splits)

lemma routine_rethrow:
  "list_all routine (fst (rethrow m h)) \<longleftrightarrow>
     list_all routine (fst m) \<and>
     (case snd m of Inl x \<Rightarrow> list_all routine (fst (h x)) | Inr _ \<Rightarrow> True)"
  by (auto simp: rethrow_def split: prod.splits sum.splits)

lemma step_simps:
  "fst (say tr) = tr" "snd (say tr) = Inr ()"
  "fst (throw m) = []" "snd (throw m) = Inl m"
  "fst (yield x) = []" "snd (yield x) = Inr x"
  "fst (awaiting k) = Suspend # fst k" "snd (awaiting k) = snd k"
  by (simp_all add: say_def throw_def yield_def awaiting_def andThen_def split: prod.splits sum.splits)

lemmas routine_simps = routine_andThen routine_rethrow step_simps routine_info routine_failure
  routine_flyctl

lemma routine_deriveName: "list_all routine (fst (deriveName fd i e))"
  by (simp add: deriveName_def routine_simps split: jsval.splits)

lemma routine_lookupUser: "list_all routine (fst (lookupUser i n e))"
  by (simp add: lookupUser_def routine_simps split: fetched.splits body.splits list.splits)

lemma routine_createOrFindUser: "list_all routine (fst (createOrFindUser i n e))"
  by (simp add: createOrFindUser_def routine_simps routine_lookupUser
        split: fetched.splits body.splits)

lemma routine_generateToken: "list_all routine (fst (generateToken i n u e))"
  by (simp add: generateToken_def routine_simps split: fetched.splits body.splits)

lemma routine_humanitecSetup: "list_all routine (fst (humanitecSetup i n e))"
  by (simp add: humanitecSetup_def routine_simps routine_createOrFindUser routine_generateToken
        split: sum.splits)

lemma routine_createApp: "list_all routine (fst (createApp i n e))"
  by (simp add: createApp_def routine_simps split: sum.splits)

lemma routine_setSecrets: "list_all routine (fst (setSecrets i n e kvs))"
  by (induction i n e kvs rule: setSecrets.induct)
     (simp_all add: routine_simps split: sum.splits)

lemma routine_injectSecrets: "list_all routine (fst (injectSecrets fd i n t e))"
  by (simp add: injectSecrets_def routine_simps routine_setSecrets split: sum.splits)

lemma routine_deployImage: "list_all routine (fst (deployImage i n p e))"
  by (simp add: deployImage_def routine_simps split: sum.splits)

lemma routine_cleanup: "list_all routine (cleanup c n e)"
  using routine_flyctl [of "destroyArgs n" c e]
  by (auto simp: cleanup_def routine_info routine_failure split: prod.splits sum.splits)

subsection \<open>The shape of the try block\<close>

lemma routine_deriveNameD: "deriveName fd i e = (tr, r) \<Longrightarrow> list_all routine tr"
  using routine_deriveName [of fd i e] by simp

lemma routine_provisionD:
  "andThen (humanitecSetup i n e) (\<lambda>t. andThen (createApp i n e) (\<lambda>_. injectSecrets fd i n t e)) = (tr, r)
   \<Longrightarrow> list_all routine tr"
proof -
  have "list_all routine (fst (andThen (humanitecSetup i n e)
          (\<lambda>t. andThen (createApp i n e) (\<lambda>_. injectSecrets fd i n t e))))"
    by (simp add: routine_simps routine_humanitecSetup routine_createApp routine_injectSecrets
          split: sum.splits)
  then show "andThen (humanitecSetup i n e) (\<lambda>t. andThen (createApp i n e) (\<lambda>_. injectSecrets fd i n t e)) = (tr, r)
   \<Longrightarrow> list_all routine tr" by simp
qed

lemma finish_thrown:
  "andThen (deployImage i n p e) (\<lambda>_. say (succeeded i n)) = (tr, Inl m) \<Longrightarrow> list_all routine tr"
  using routine_deployImage [of i n p e]
  by (auto simp: andThen_def say_def split: prod.splits sum.splits)

lemma finish_done:
  "andThen (deployImage i n p e) (\<lambda>_. say (succeeded i n)) = (tr, Inr u) \<Longrightarrow>
   \<exists>tr'. list_all routine tr' \<and> tr = tr' @ succeeded i n"
  using routine_deployImage [of i n p e]
  by (auto simp: andThen_def say_def split: prod.splits sum.splits)

lemma tempPath_nonempty: "tempPath e i n \<noteq> []"
  by (simp add: tempPath_def)

lemma deriveName_value:
  "deriveName fd i e = (tr, Inr n) \<Longrightarrow> \<exists>org. orgName fd = JStr org \<and> n = appNameOf org (random e)"
  by (auto simp: deriveName_def andThen_def say_def throw_def yield_def split: jsval.splits)

lemma deriveName_thrown:
  "deriveName fd i e = (tr, Inl m) \<Longrightarrow> \<forall>org. orgName fd \<noteq> JStr org"
  by (auto simp: deriveName_def andThen_def say_def throw_def yield_def split: jsval.splits)

lemma tryBlock_cases:
  obtains
    (noName) tr m where
      "\<forall>org. orgName fd \<noteq> JStr org" "list_all routine tr"
      "tryBlock fd i e fs =
         \<lparr>uniqueAppName = [], tempFlyTomlPath = [], trace = tr, files = fs, thrown = Some m\<rparr>"
  | (early) org tr m where
      "orgName fd = JStr org" "list_all routine tr"
      "tryBlock fd i e fs =
         \<lparr>uniqueAppName = appNameOf org (random e), tempFlyTomlPath = [], trace = tr,
          files = fs, thrown = Some m\<rparr>"
  | (late) org tr tr' m where
      "orgName fd = JStr org" "list_all routine tr" "list_all routine tr'"
      "tryBlock fd i e fs =
         \<lparr>uniqueAppName = appNameOf org (random e),
          tempFlyTomlPath = tempPath e i (appNameOf org (random e)),
          trace = tr @ writeEffects i (appNameOf org (random e))
                    (tempPath e i (appNameOf org (random e))) e @ tr',
          files = fst (fsWriteFile e (tempPath e i (appNameOf org (random e)))
                    (flyTomlContent (appNameOf org (random e)) (flyRegion e) (imageName e)) fs),
          thrown = Some m\<rparr>"
  | (finished) org tr tr' where
      "orgName fd = JStr org" "list_all routine tr" "list_all routine tr'"
      "writeFile e = Written"
      "tryBlock fd i e fs =
         \<lparr>uniqueAppName = appNameOf org (random e),
          tempFlyTomlPath = tempPath e i (appNameOf org (random e)),
          trace = tr @ writeEffects i (appNameOf org (random e))
                    (tempPath e i (appNameOf org (random e))) e @ tr' @
                  succeeded i (appNameOf org (random e)),
          files = fs(tempPath e i (appNameOf org (random e)) \<mapsto>
                    flyTomlContent (appNameOf org (random e)) (flyRegion e) (imageName e)),
          thrown = None\<rparr>"
proof -
  obtain tr1 r1 where d: "deriveName fd i e = (tr1, r1)" by fastforce
  have rt1: "list_all routine tr1" using d by (rule routine_deriveNameD)
  show thesis
  proof (cases r1)
    case (Inl m)
    with d have "\<forall>org. orgName fd \<noteq> JStr org" by (auto dest: deriveName_thrown)
    moreover have "tryBlock fd i e fs =
         \<lparr>uniqueAppName = [], tempFlyTomlPath = [], trace = tr1, files = fs, thrown = Some m\<rparr>"
      using d Inl by (simp add: tryBlock_def)
    ultimately show thesis using rt1 noName by blast
  next
    case (Inr n)
    with d obtain org where org: "orgName fd = JStr org" and n: "n = appNameOf org (random e)"
      by (auto dest: deriveName_value)
    obtain tr2 r2 where p: "andThen (humanitecSetup i n e)
        (\<lambda>t. andThen (createApp i n e) (\<lambda>_. injectSecrets fd i n t e)) = (tr2, r2)"
      by fastforce
    have rt2: "list_all routine tr2" using p by (rule routine_provisionD)
    show thesis
    proof (cases r2)
      case (Inl m)
      have "tryBlock fd i e fs =
         \<lparr>uniqueAppName = appNameOf org (random e), tempFlyTomlPath = [], trace = tr1 @ tr2,
          files = fs, thrown = Some m\<rparr>"
        using d Inr p Inl n by (simp add: tryBlock_def)
      moreover have "list_all routine (tr1 @ tr2)" using rt1 rt2 by simp
      ultimately show thesis using org early by blast
    next
      case r2: (Inr u)
      let ?path = "tempPath e i n"
      let ?content = "flyTomlContent n (flyRegion e) (imageName e)"
      show thesis
      proof (cases "snd (fsWriteFile e ?path ?content fs)")
        case (Some m)
        have "tryBlock fd i e fs =
           \<lparr>uniqueAppName = n, tempFlyTomlPath = ?path,
            trace = (tr1 @ tr2) @ writeEffects i n ?path e @ [],
            files = fst (fsWriteFile e ?path ?content fs), thrown = Some m\<rparr>"
          using d Inr p r2 Some by (simp add: tryBlock_def Let_def)
        moreover have "list_all routine (tr1 @ tr2)" using rt1 rt2 by simp
        moreover have "list_all routine []" by simp
        ultimately show thesis using org late unfolding n by blast
      next
        case None
        then have w: "writeFile e = Written"
          by (simp add: fsWriteFile_def split: write_result.splits)
        obtain tr4 r4 where f: "andThen (deployImage i n ?path e) (\<lambda>_. say (succeeded i n)) = (tr4, r4)"
          by fastforce
        show thesis
        proof (cases r4)
          case (Inl m)
          have "tryBlock fd i e fs =
             \<lparr>uniqueAppName = n, tempFlyTomlPath = ?path,
              trace = (tr1 @ tr2) @ writeEffects i n ?path e @ tr4,
              files = fst (fsWriteFile e ?path ?content fs), thrown = Some m\<rparr>"
            using d Inr p r2 None f Inl by (simp add: tryBlock_def Let_def)
          moreover have "list_all routine (tr1 @ tr2)" using rt1 rt2 by simp
          moreover have "list_all routine tr4" using f Inl by (auto dest: finish_thrown)
          ultimately show thesis using org late unfolding n by blast
        next
          case r4: (Inr v)
          with f obtain tr' where tr': "list_all routine tr'" "tr4 = tr' @ succeeded i n"
            by (auto dest: finish_done)
          have "tryBlock fd i e fs =
             \<lparr>uniqueAppName = n, tempFlyTomlPath = ?path,
              trace = (tr1 @ tr2) @ writeEffects i n ?path e @ tr' @ succeeded i n,
              files = fs(?path \<mapsto> ?content), thrown = None\<rparr>"
            using d Inr p r2 None f r4 tr' w by (simp add: tryBlock_def Let_def fsWriteFile_def)
          moreover have "list_all routine (tr1 @ tr2)" using rt1 rt2 by simp
          ultimately show thesis using org tr'(1) w finished unfolding n by blast
        qed
      qed
    qed
  qed
qed

subsection \<open>The events of a run\<close>

lemma run_fields:
  "thrown (startDeployment fd i e fs) = thrown (tryBlock fd i e fs)"
  "uniqueAppName (startDeployment fd i e fs) = uniqueAppName (tryBlock fd i e fs)"
  "tempFlyTomlPath (startDeployment fd i e fs) = tempFlyTomlPath (tryBlock fd i e fs)"
  by (simp_all add: startDeployment_def tryCatch_def finallyBlock_def catchBlock_def Let_def
        split: option.splits)

lemma run_events:
  "events (trace (startDeployment fd i e fs)) =
     events (trace (tryBlock fd i e fs)) @
     (case thrown (tryBlock fd i e fs) of
        None \<Rightarrow> []
      | Some m \<Rightarrow>
          \<lparr>message = ''Deployment failed: '' @ m, isError = True, isComplete = True, data = None\<rparr> #
          (if uniqueAppName (tryBlock fd i e fs) \<noteq> [] then
             events (cleanup (uniqueAppName (tryBlock fd i e fs))
                       (uniqueAppName (tryBlock fd i e fs)) e)
           else []))"
  by (simp add: startDeployment_def tryCatch_def finallyBlock_def catchBlock_def Let_def
        events_append sendUpdate_def split: option.splits)

lemma events_writeEffects:
  "events (writeEffects i n p e) =
     [\<lparr>message = ''Writing temporary fly.toml to '' @ p @ ''...'', isError = False,
       isComplete = False, data = None\<rparr>]"
  by (simp add: writeEffects_def info_def sendUpdate_def)

lemma events_succeeded:
  "events (succeeded i n) =
     [\<lparr>message = ''Deployment successful! App should be available shortly at: '' @ appUrl n,
       isError = False, isComplete = True, data = Some (appUrl n)\<rparr>]"
  by (simp add: succeeded_def sendUpdate_def)


lemma try_done_events:
  assumes "thrown (tryBlock fd i e fs) = None"
  shows "\<exists>evs. list_all (\<lambda>ev. \<not> isComplete ev \<and> data ev = None) evs \<and>
           events (trace (tryBlock fd i e fs)) =
             evs @ events (succeeded i (uniqueAppName (tryBlock fd i e fs)))"
proof (cases fd i e fs rule: tryBlock_cases)
  case (finished org tr tr')
  let ?n = "appNameOf org (random e)"
  have "list_all (\<lambda>ev. \<not> isComplete ev \<and> data ev = None)
          (events tr @ events (writeEffects i ?n (tempPath e i ?n) e) @ events tr')"
    using finished(2,3) by (simp add: routine_events events_writeEffects)
  moreover have "events (trace (tryBlock fd i e fs)) =
      (events tr @ events (writeEffects i ?n (tempPath e i ?n) e) @ events tr') @
      events (succeeded i (uniqueAppName (tryBlock fd i e fs)))"
    using finished(5) by (simp add: events_append)
  ultimately show ?thesis by blast
qed (use assms in simp_all)

lemma try_name:
  "uniqueAppName (tryBlock fd i e fs) =
     (case orgName fd of JStr org \<Rightarrow> appNameOf org (random e) | _ \<Rightarrow> [])"
  by (cases fd i e fs rule: tryBlock_cases) (simp_all split: jsval.splits)

text \<open>
  Claim C9. In every run that completes without an error, events were published, the last
  of them has \<open>isComplete\<close> true, \<open>isError\<close> false and the payload
  \<^verbatim>\<open>https://<derived-name>.canyon-beta.com\<close>, where the derived name is the one made from
  the organization name and the random number, and no event before it carries a payload.
\<close>

theorem success_event:
  assumes "thrown (startDeployment fd i e fs) = None"
  shows "events (trace (startDeployment fd i e fs)) \<noteq> []
    \<and> last (events (trace (startDeployment fd i e fs))) =
        \<lparr>message = ''Deployment successful! App should be available shortly at: '' @
           ''https://'' @ uniqueAppName (startDeployment fd i e fs) @ ''.canyon-beta.com'',
         isError = False, isComplete = True,
         data = Some (''https://'' @ uniqueAppName (startDeployment fd i e fs) @ ''.canyon-beta.com'')\<rparr>
    \<and> list_all (\<lambda>ev. data ev = None) (butlast (events (trace (startDeployment fd i e fs))))
    \<and> (\<exists>org. orgName fd = JStr org \<and>
          uniqueAppName (startDeployment fd i e fs) = appNameOf org (random e))"
proof -
  from assms have t: "thrown (tryBlock fd i e fs) = None" by (simp add: run_fields)
  then obtain evs where evs: "list_all (\<lambda>ev. \<not> isComplete ev \<and> data ev = None) evs"
    and ev: "events (trace (tryBlock fd i e fs)) =
               evs @ events (succeeded i (uniqueAppName (tryBlock fd i e fs)))"
    using try_done_events by blast
  have all: "events (trace (startDeployment fd i e fs)) =
      evs @ events (succeeded i (uniqueAppName (startDeployment fd i e fs)))"
    using t ev by (simp add: run_events run_fields)
  have quiet: "list_all (\<lambda>ev. data ev = None) evs"
    using evs by (simp add: list_all_iff)
  have name: "\<exists>org. orgName fd = JStr org \<and>
          uniqueAppName (startDeployment fd i e fs) = appNameOf org (random e)"
    using t by (cases fd i e fs rule: tryBlock_cases) (simp_all add: run_fields)
  show ?thesis
    using quiet name by (simp add: all events_succeeded appUrl_def)
qed

subsection \<open>Evaluating runs in the concrete worlds\<close>

text \<open>The fields of the concrete worlds.\<close>

lemma happyWorld_fields:
  "random happyWorld = 1/2"
  "HUMANITEC_SERVICE_USER_API_TOKEN happyWorld = Some ''admin''"
  "FLY_REGION happyWorld = None"
  "DEPLOY_IMAGE happyWorld = None"
  "FLY_ORG happyWorld = None"
  "tmpdir happyWorld = ''/tmp''"
  "createUser happyWorld = Responded 201 [] (JVal (Some ''u1''))"
  "getUsers happyWorld = Rejected ''unused''"
  "createToken happyWorld = Responded 201 [] (JVal (Some ''t1''))"
  "spawn happyWorld = (\<lambda>c a. quietChild)"
  "writeFile happyWorld = Written"
  "unlinkError happyWorld = None"
  by (simp_all add: happyWorld_def)

lemma thirdSecretWorld_fields:
  "random thirdSecretWorld = 1/2"
  "HUMANITEC_SERVICE_USER_API_TOKEN thirdSecretWorld = Some ''admin''"
  "FLY_REGION thirdSecretWorld = None"
  "DEPLOY_IMAGE thirdSecretWorld = None"
  "FLY_ORG thirdSecretWorld = None"
  "tmpdir thirdSecretWorld = ''/tmp''"
  "createUser thirdSecretWorld = Responded 201 [] (JVal (Some ''u1''))"
  "getUsers thirdSecretWorld = Rejected ''unused''"
  "createToken thirdSecretWorld = Responded 201 [] (JVal (Some ''t1''))"
  "spawn thirdSecretWorld = (\<lambda>c a.
        if a = secretArgs ''acme-inc--5500'' ''DEFAULT_MODEL'' ''gemini-2.5-pro-preview-03-25''
        then refusingChild else quietChild)"
  "writeFile thirdSecretWorld = Written"
  "unlinkError thirdSecretWorld = None"
  by (simp_all add: thirdSecretWorld_def happyWorld_def)

lemma tokenlessWorld_fields:
  "random tokenlessWorld = 1/2"
  "HUMANITEC_SERVICE_USER_API_TOKEN tokenlessWorld = None"
  "FLY_REGION tokenlessWorld = None"
  "DEPLOY_IMAGE tokenlessWorld = None"
  "FLY_ORG tokenlessWorld = None"
  "tmpdir tokenlessWorld = ''/tmp''"
  "createUser tokenlessWorld = Responded 201 [] (JVal (Some ''u1''))"
  "getUsers tokenlessWorld = Rejected ''unused''"
  "createToken tokenlessWorld = Responded 201 [] (JVal (Some ''t1''))"
  "spawn tokenlessWorld = (\<lambda>c a. quietChild)"
  "writeFile tokenlessWorld = Written"
  "unlinkError tokenlessWorld = None"
  by (simp_all add: tokenlessWorld_def happyWorld_def)

lemma takenWorld_fields:
  "random takenWorld = 1/2"
  "HUMANITEC_SERVICE_USER_API_TOKEN takenWorld = Some ''admin''"
  "FLY_REGION takenWorld = None"
  "DEPLOY_IMAGE takenWorld = None"
  "FLY_ORG takenWorld = None"
  "tmpdir takenWorld = ''/tmp''"
  "createUser takenWorld = Responded 201 [] (JVal (Some ''u1''))"
  "getUsers takenWorld = Rejected ''unused''"
  "createToken takenWorld = Responded 201 [] (JVal (Some ''t1''))"
  "spawn takenWorld = (\<lambda>c a.
        if a = [''apps'', ''create'', ''acme-inc--5500'', ''--org'', ''personal'']
        then takenChild else quietChild)"
  "writeFile takenWorld = Written"
  "unlinkError takenWorld = None"
  by (simp_all add: takenWorld_def happyWorld_def)

lemma stickyWorld_fields:
  "random stickyWorld = 1/2"
  "HUMANITEC_SERVICE_USER_API_TOKEN stickyWorld = Some ''admin''"
  "FLY_REGION stickyWorld = None"
  "DEPLOY_IMAGE stickyWorld = None"
  "FLY_ORG stickyWorld = None"
  "tmpdir stickyWorld = ''/tmp''"
  "createUser stickyWorld = Responded 201 [] (JVal (Some ''u1''))"
  "getUsers stickyWorld = Rejected ''unused''"
  "createToken stickyWorld = Responded 201 [] (JVal (Some ''t1''))"
  "spawn stickyWorld = (\<lambda>c a. quietChild)"
  "writeFile stickyWorld = Written"
  "unlinkError stickyWorld = Some ''EPERM: operation not permitted''"
  by (simp_all add: stickyWorld_def happyWorld_def)

lemma unreachableWorld_fields:
  "random unreachableWorld = 1/2"
  "HUMANITEC_SERVICE_USER_API_TOKEN unreachableWorld = Some ''admin''"
  "FLY_REGION unreachableWorld = None"
  "DEPLOY_IMAGE unreachableWorld = None"
  "FLY_ORG unreachableWorld = None"
  "tmpdir unreachableWorld = ''/tmp''"
  "createUser unreachableWorld = Rejected ''fetch failed''"
  "getUsers unreachableWorld = Rejected ''unused''"
  "createToken unreachableWorld = Responded 201 [] (JVal (Some ''t1''))"
  "spawn unreachableWorld = (\<lambda>c a. quietChild)"
  "writeFile unreachableWorld = Written"
  "unlinkError unreachableWorld = None"
  by (simp_all add: unreachableWorld_def happyWorld_def)

lemma acmeForm_fields:
  "orgName acmeForm = JStr ''Acme Inc!''"
  "geminiKey acmeForm = JStr ''k''"
  by (simp_all add: acmeForm_def)

lemmas world_fields = happyWorld_fields thirdSecretWorld_fields tokenlessWorld_fields
  takenWorld_fields stickyWorld_fields unreachableWorld_fields acmeForm_fields

lemmas run_defs = startDeployment_def tryCatch_def tryBlock_def catchBlock_def finallyBlock_def
  deriveName_def humanitecSetup_def createOrFindUser_def lookupUser_def generateToken_def
  createApp_def injectSecrets_def secrets_def deployImage_def succeeded_def cleanup_def
  writeEffects_def fsWriteFile_def fsUnlink_def flyctl_def runCommand_def started_def
  turn_def arrive_def awaiting_def
  andThen_def say_def throw_def yield_def rethrow_def truthy_def orElse_def ok_def
  acme_half showInt_def showCode_def tempPath_def flyRegion_def imageName_def flyOrg_def
  createArgs_def secretArgs_def deployArgs_def destroyArgs_def commandString_def
  info_def failure_def sendUpdate_def Let_def world_fields quietChild_def refusingChild_def
  takenChild_def

text \<open>The outcome and the commands of a run, step by step, without its other effects.\<close>

lemma snd_andThen: "snd (andThen m f) = (case snd m of Inl x \<Rightarrow> Inl x | Inr x \<Rightarrow> snd (f x))"
  by (simp add: andThen_def split: prod.splits sum.splits)

lemma fst_andThen: "fst (andThen m f) = fst m @ (case snd m of Inl x \<Rightarrow> [] | Inr x \<Rightarrow> fst (f x))"
  by (simp add: andThen_def split: prod.splits sum.splits)

lemma snd_rethrow: "snd (rethrow m h) = (case snd m of Inl x \<Rightarrow> Inl (snd (h x)) | Inr x \<Rightarrow> Inr x)"
  by (simp add: rethrow_def split: prod.splits sum.splits)

lemma fst_rethrow: "fst (rethrow m h) = fst m @ (case snd m of Inl x \<Rightarrow> fst (h x) | Inr x \<Rightarrow> [])"
  by (simp add: rethrow_def split: prod.splits sum.splits)

lemma snd_runCommand:
  "snd (runCommand c a i p) =
     (case ending p of
        SpawnError m \<Rightarrow> Inl (startMessage (commandString c a) m)
      | Close code \<Rightarrow>
          if code \<noteq> Some 0 then
            Inl (failedMessage (commandString c a) code
                   (concat (map (\<lambda>ch. case ch of
                        Stdout d \<Rightarrow> []
                      | Stderr d \<Rightarrow> (if trim d = [] then [] else trim d @ nl)) (chunks p))))
          else
            Inr \<lparr>stdout = concat (map (\<lambda>ch. case ch of
                        Stdout d \<Rightarrow> (if trim d = [] then [] else trim d @ nl)
                      | Stderr d \<Rightarrow> []) (chunks p)),
                 stderr = concat (map (\<lambda>ch. case ch of
                        Stdout d \<Rightarrow> []
                      | Stderr d \<Rightarrow> (if trim d = [] then [] else trim d @ nl)) (chunks p)),
                 exitCode = 0\<rparr>)"
  by (simp add: runCommand_def turn_fields arrived_stdout arrived_stderr collected_stdout
        collected_stderr started_def split: ending.splits)

lemma try_thrown:
  "thrown (tryBlock fd i e fs) =
     (case snd (deriveName fd i e) of
        Inl m \<Rightarrow> Some m
      | Inr n \<Rightarrow>
          (case snd (andThen (humanitecSetup i n e) (\<lambda>t.
                  andThen (createApp i n e) (\<lambda>_. injectSecrets fd i n t e))) of
             Inl m \<Rightarrow> Some m
           | Inr _ \<Rightarrow>
               (case snd (fsWriteFile e (tempPath e i n)
                            (flyTomlContent n (flyRegion e) (imageName e)) fs) of
                  Some m \<Rightarrow> Some m
                | None \<Rightarrow>
                    (case snd (andThen (deployImage i n (tempPath e i n) e)
                                 (\<lambda>_. say (succeeded i n))) of
                       Inl m \<Rightarrow> Some m
                     | Inr _ \<Rightarrow> None))))"
  by (auto simp: tryBlock_def Let_def split: prod.splits sum.splits option.splits)

lemmas outcome_defs = run_fields try_thrown snd_andThen snd_rethrow step_simps snd_runCommand
  deriveName_def humanitecSetup_def createOrFindUser_def lookupUser_def generateToken_def
  createApp_def injectSecrets_def secrets_def deployImage_def flyctl_def fsWriteFile_def
  truthy_def orElse_def ok_def acme_half flyOrg_def createArgs_def secretArgs_def
  deployArgs_def world_fields quietChild_def refusingChild_def takenChild_def

lemma happy_run:
  "thrown (startDeployment acmeForm ''d1'' happyWorld Map.empty) = None"
  by (simp add: outcome_defs)

lemma acme_name: "uniqueAppName (startDeployment acmeForm ''d1'' e fs) = appNameOf ''Acme Inc!'' (random e)"
  by (simp add: run_fields try_name acmeForm_def)

subsection \<open>Failing runs\<close>

lemma commands_on_data: "commands (emitted (on_data j w ch)) = commands (emitted w)"
  by (cases ch) (simp_all add: Let_def commands_append info_def sendUpdate_def)

lemma commands_turn: "commands (emitted (turn w)) = commands (emitted w)"
  by (simp add: turn_def commands_append)

lemma commands_collected: "commands (emitted (foldl (arrive j) w cs)) = commands (emitted w)"
  by (induction cs arbitrary: w) (simp_all add: arrive_def commands_on_data commands_turn)

lemma commands_runCommand: "commands (fst (runCommand c a j p)) = [(c, a)]"
  by (cases "ending p")
     (simp_all add: runCommand_def commands_append commands_collected commands_turn started_def
        info_def failure_def sendUpdate_def)

lemma commands_cleanup:
  "commands (cleanup c n e) = [(''flyctl'', [''apps'', ''destroy'', n, ''--yes''])]"
proof -
  obtain tr r where f: "flyctl (destroyArgs n) c e = (tr, r)" by fastforce
  then have "commands tr = [(''flyctl'', destroyArgs n)]"
    using commands_runCommand [of "''flyctl''" "destroyArgs n" c "spawn e ''flyctl'' (destroyArgs n)"]
    by (simp add: flyctl_def)
  then show ?thesis
    using f by (cases r)
      (simp_all add: cleanup_def commands_append info_def failure_def sendUpdate_def destroyArgs_def)
qed

lemma try_trace:
  "trace (tryBlock fd i e fs) =
     fst (deriveName fd i e) @
     (case snd (deriveName fd i e) of
        Inl m \<Rightarrow> []
      | Inr n \<Rightarrow>
          fst (andThen (humanitecSetup i n e) (\<lambda>t.
                 andThen (createApp i n e) (\<lambda>_. injectSecrets fd i n t e))) @
          (case snd (andThen (humanitecSetup i n e) (\<lambda>t.
                  andThen (createApp i n e) (\<lambda>_. injectSecrets fd i n t e))) of
             Inl m \<Rightarrow> []
           | Inr _ \<Rightarrow>
               writeEffects i n (tempPath e i n) e @
               (case snd (fsWriteFile e (tempPath e i n)
                            (flyTomlContent n (flyRegion e) (imageName e)) fs) of
                  Some m \<Rightarrow> []
                | None \<Rightarrow>
                    fst (andThen (deployImage i n (tempPath e i n) e)
                           (\<lambda>_. say (succeeded i n))))))"
  by (auto simp: tryBlock_def Let_def split: prod.splits sum.splits option.splits)

lemma run_commands:
  "commands (trace (startDeployment fd i e fs)) =
     commands (trace (tryBlock fd i e fs)) @
     (if thrown (tryBlock fd i e fs) \<noteq> None \<and> uniqueAppName (tryBlock fd i e fs) \<noteq> [] then
        [(''flyctl'', [''apps'', ''destroy'', uniqueAppName (tryBlock fd i e fs), ''--yes''])]
      else [])"
  by (auto simp: startDeployment_def tryCatch_def finallyBlock_def catchBlock_def Let_def
        commands_append commands_cleanup sendUpdate_def split: option.splits)

lemma commands_flyctl: "commands (fst (flyctl a i e)) = [(''flyctl'', a)]"
  by (simp add: flyctl_def commands_runCommand)

lemma snd_flyctl: "snd (flyctl a i e) = snd (runCommand ''flyctl'' a i (spawn e ''flyctl'' a))"
  by (simp add: flyctl_def)

lemmas commands_defs = run_commands try_trace try_thrown try_name commands_append fst_andThen
  snd_andThen fst_rethrow snd_rethrow step_simps commands_flyctl snd_flyctl snd_runCommand
  deriveName_def humanitecSetup_def createOrFindUser_def lookupUser_def generateToken_def
  createApp_def injectSecrets_def secrets_def deployImage_def fsWriteFile_def writeEffects_def
  succeeded_def info_def failure_def sendUpdate_def
  truthy_def orElse_def ok_def acme_half flyOrg_def createArgs_def secretArgs_def
  deployArgs_def world_fields quietChild_def refusingChild_def takenChild_def

text \<open>
  Claim C1 is not met by the code. Without the administrative token the run fails during
  identity provisioning, before any create command, and yet the only command of the run is
  the destroy command for the derived name. When the create command itself fails because
  the name is taken, the destroy command for that name follows it. The \<^verbatim>\<open>catch\<close> block
  tests the derived name, which is assigned before the first fallible step, not whether the
  application was created.
\<close>

theorem destroy_without_create:
  \<open>thrown (startDeployment acmeForm ''d1'' tokenlessWorld Map.empty) =
     Some ''Missing HUMANITEC_SERVICE_USER_API_TOKEN in environment variables.''
   \<and> commands (trace (startDeployment acmeForm ''d1'' tokenlessWorld Map.empty)) =
     [(''flyctl'', [''apps'', ''destroy'', ''acme-inc--5500'', ''--yes''])]
   \<and> thrown (startDeployment acmeForm ''d1'' takenWorld Map.empty) =
     Some (''Command "flyctl apps create acme-inc--5500 --org personal" failed with exit code 1. Stderr: Error: Validation failed: Name has already been taken'' @ nl)
   \<and> commands (trace (startDeployment acmeForm ''d1'' takenWorld Map.empty)) =
     [(''flyctl'', [''apps'', ''create'', ''acme-inc--5500'', ''--org'', ''personal'']),
      (''flyctl'', [''apps'', ''destroy'', ''acme-inc--5500'', ''--yes''])]\<close>
  by (simp add: outcome_defs commands_defs commands_runCommand failedMessage_def
        commandString_def showCode_def showInt_def nl_def trim_def is_ws_def)


subsection \<open>Successful runs\<close>

text \<open>The world in which every step succeeds: the payload is the address of \<^verbatim>\<open>acme-inc--5500\<close>.\<close>

theorem success_event_witness:
  "thrown (startDeployment acmeForm ''d1'' happyWorld Map.empty) = None
   \<and> last (events (trace (startDeployment acmeForm ''d1'' happyWorld Map.empty))) =
       \<lparr>message = ''Deployment successful! App should be available shortly at: https://acme-inc--5500.canyon-beta.com'',
        isError = False, isComplete = True,
        data = Some ''https://acme-inc--5500.canyon-beta.com''\<rparr>"
  using success_event [OF happy_run] happy_run
  by (simp add: acme_name happyWorld_def acme_half)


subsection \<open>The temporary descriptor\<close>

text \<open>No step before the \<^verbatim>\<open>finally\<close> block looks at the outcome of the deletion.\<close>

lemma env_unlink:
  "random (e\<lparr>unlinkError := u\<rparr>) = random e"
  "HUMANITEC_SERVICE_USER_API_TOKEN (e\<lparr>unlinkError := u\<rparr>) = HUMANITEC_SERVICE_USER_API_TOKEN e"
  "FLY_REGION (e\<lparr>unlinkError := u\<rparr>) = FLY_REGION e"
  "DEPLOY_IMAGE (e\<lparr>unlinkError := u\<rparr>) = DEPLOY_IMAGE e"
  "FLY_ORG (e\<lparr>unlinkError := u\<rparr>) = FLY_ORG e"
  "tmpdir (e\<lparr>unlinkError := u\<rparr>) = tmpdir e"
  "createUser (e\<lparr>unlinkError := u\<rparr>) = createUser e"
  "getUsers (e\<lparr>unlinkError := u\<rparr>) = getUsers e"
  "createToken (e\<lparr>unlinkError := u\<rparr>) = createToken e"
  "spawn (e\<lparr>unlinkError := u\<rparr>) = spawn e"
  "writeFile (e\<lparr>unlinkError := u\<rparr>) = writeFile e"
  "numberToString (e\<lparr>unlinkError := u\<rparr>) = numberToString e"
  by simp_all

lemma setSecrets_unlink:
  "setSecrets i n (e\<lparr>unlinkError := u\<rparr>) kvs = setSecrets i n e kvs"
proof (induction kvs)
  case Nil
  show ?case by simp
next
  case (Cons kv kvs)
  obtain key val where kv: "kv = (key, val)" by (cases kv)
  show ?case
    unfolding kv setSecrets.simps flyctl_def env_unlink Cons.IH by (rule refl)
qed

lemma provision_unlink:
  "deriveName fd i (e\<lparr>unlinkError := u\<rparr>) = deriveName fd i e"
  "humanitecSetup i n (e\<lparr>unlinkError := u\<rparr>) = humanitecSetup i n e"
  "createApp i n (e\<lparr>unlinkError := u\<rparr>) = createApp i n e"
  "injectSecrets fd i n t (e\<lparr>unlinkError := u\<rparr>) = injectSecrets fd i n t e"
  "deployImage i n p (e\<lparr>unlinkError := u\<rparr>) = deployImage i n p e"
  "writeEffects i n p (e\<lparr>unlinkError := u\<rparr>) = writeEffects i n p e"
  "fsWriteFile (e\<lparr>unlinkError := u\<rparr>) p c fs = fsWriteFile e p c fs"
  "tempPath (e\<lparr>unlinkError := u\<rparr>) i n = tempPath e i n"
  "flyRegion (e\<lparr>unlinkError := u\<rparr>) = flyRegion e"
  "imageName (e\<lparr>unlinkError := u\<rparr>) = imageName e"
  unfolding deriveName_def humanitecSetup_def createOrFindUser_def lookupUser_def
    generateToken_def createApp_def injectSecrets_def setSecrets_unlink deployImage_def
    flyctl_def writeEffects_def fsWriteFile_def tempPath_def flyRegion_def imageName_def
    flyOrg_def createArgs_def deployArgs_def env_unlink
  by (rule refl)+

lemma tryBlock_unlink: "tryBlock fd i (e\<lparr>unlinkError := u\<rparr>) fs = tryBlock fd i e fs"
  unfolding tryBlock_def provision_unlink by (rule refl)

lemma cleanup_unlink: "cleanup c n (e\<lparr>unlinkError := u\<rparr>) = cleanup c n e"
  unfolding cleanup_def flyctl_def env_unlink by (rule refl)

lemma catchBlock_unlink: "catchBlock m i (e\<lparr>unlinkError := u\<rparr>) r = catchBlock m i e r"
  unfolding catchBlock_def cleanup_unlink by (rule refl)

lemma tryCatch_unlink: "tryCatch fd i (e\<lparr>unlinkError := u\<rparr>) fs = tryCatch fd i e fs"
  unfolding tryCatch_def catchBlock_unlink tryBlock_unlink by (rule refl)

lemma finally_consoleFree:
  "consoleFree (trace (finallyBlock i e r)) =
     consoleFree (trace r) @
     (if tempFlyTomlPath r = [] then [] else [Unlink (tempFlyTomlPath r), Suspend])"
  by (simp add: finallyBlock_def Let_def consoleFree_append split: option.splits)

lemma finally_fields:
  "thrown (finallyBlock i e r) = thrown r"
  "uniqueAppName (finallyBlock i e r) = uniqueAppName r"
  "tempFlyTomlPath (finallyBlock i e r) = tempFlyTomlPath r"
  "unlinks (trace (finallyBlock i e r)) =
     unlinks (trace r) @ (if tempFlyTomlPath r = [] then [] else [tempFlyTomlPath r])"
  "fileWrites (trace (finallyBlock i e r)) = fileWrites (trace r)"
  "files (finallyBlock i e r) =
     (if tempFlyTomlPath r = [] then files r else fst (fsUnlink e (tempFlyTomlPath r) (files r)))"
  by (simp_all add: finallyBlock_def Let_def unlinks_append fileWrites_append split: option.splits)

lemma try_unlinks: "unlinks (trace (tryBlock fd i e fs)) = []"
  by (cases fd i e fs rule: tryBlock_cases)
     (simp_all add: unlinks_append routine_unlinks writeEffects_def succeeded_def info_def
        sendUpdate_def)

lemma try_fileWrites:
  "fileWrites (trace (tryBlock fd i e fs)) =
     (if tempFlyTomlPath (tryBlock fd i e fs) = [] then [] else [tempFlyTomlPath (tryBlock fd i e fs)])"
  by (cases fd i e fs rule: tryBlock_cases)
     (simp_all add: fileWrites_append routine_fileWrites writeEffects_def succeeded_def info_def
        sendUpdate_def tempPath_nonempty)

lemma try_files_untouched:
  "tempFlyTomlPath (tryBlock fd i e fs) = [] \<Longrightarrow> files (tryBlock fd i e fs) = fs"
  by (cases fd i e fs rule: tryBlock_cases) (simp_all add: tempPath_nonempty)

lemma try_files_frame:
  "p \<noteq> tempFlyTomlPath (tryBlock fd i e fs) \<Longrightarrow> files (tryBlock fd i e fs) p = fs p"
  by (cases fd i e fs rule: tryBlock_cases)
     (simp_all add: fsWriteFile_def split: write_result.splits)

lemma tryCatch_fields:
  "thrown (tryCatch fd i e fs) = thrown (tryBlock fd i e fs)"
  "uniqueAppName (tryCatch fd i e fs) = uniqueAppName (tryBlock fd i e fs)"
  "files (tryCatch fd i e fs) = files (tryBlock fd i e fs)"
  "tempFlyTomlPath (tryCatch fd i e fs) = tempFlyTomlPath (tryBlock fd i e fs)"
  "unlinks (trace (tryCatch fd i e fs)) = unlinks (trace (tryBlock fd i e fs))"
  "fileWrites (trace (tryCatch fd i e fs)) = fileWrites (trace (tryBlock fd i e fs))"
  by (simp_all add: tryCatch_def catchBlock_def Let_def unlinks_append fileWrites_append
        sendUpdate_def routine_unlinks routine_fileWrites routine_cleanup split: option.splits)

text \<open>
  Claim C8, amended. After every run, whatever its outcome: the deletion of the temporary
  descriptor was attempted exactly once if the run recorded its path, which it does just
  before it writes the file, and not at all otherwise; a file was written only at that
  path; if the deletion does not fail, no file is at that path afterwards; a run that
  recorded no path leaves the file system as it was, and no run touches another path; and
  whether and how the deletion fails changes nothing of the run but console lines: the
  events, commands, requests and file operations are the same, and so is the outcome.
\<close>

theorem descriptor_removal:
  "unlinks (trace (startDeployment fd i e fs)) =
      (if tempFlyTomlPath (startDeployment fd i e fs) = [] then []
       else [tempFlyTomlPath (startDeployment fd i e fs)])
   \<and> fileWrites (trace (startDeployment fd i e fs)) =
      (if tempFlyTomlPath (startDeployment fd i e fs) = [] then []
       else [tempFlyTomlPath (startDeployment fd i e fs)])
   \<and> (unlinkError e = None \<longrightarrow> tempFlyTomlPath (startDeployment fd i e fs) \<noteq> [] \<longrightarrow>
        files (startDeployment fd i e fs) (tempFlyTomlPath (startDeployment fd i e fs)) = None)
   \<and> (tempFlyTomlPath (startDeployment fd i e fs) = [] \<longrightarrow> files (startDeployment fd i e fs) = fs)
   \<and> (p \<noteq> tempFlyTomlPath (startDeployment fd i e fs) \<longrightarrow> files (startDeployment fd i e fs) p = fs p)
   \<and> consoleFree (trace (startDeployment fd i (e\<lparr>unlinkError := u\<rparr>) fs)) =
       consoleFree (trace (startDeployment fd i e fs))
   \<and> thrown (startDeployment fd i (e\<lparr>unlinkError := u\<rparr>) fs) = thrown (startDeployment fd i e fs)"
  by (simp add: startDeployment_def finally_fields finally_consoleFree tryCatch_fields
        tryCatch_unlink try_unlinks try_fileWrites try_files_untouched try_files_frame
        fsUnlink_def split: option.splits)

lemma run_path:
  "thrown (startDeployment fd i e fs) = None \<Longrightarrow>
   tempFlyTomlPath (startDeployment fd i e fs) =
     tempPath e i (uniqueAppName (startDeployment fd i e fs))"
  by (cases fd i e fs rule: tryBlock_cases)
     (simp_all add: startDeployment_def finally_fields tryCatch_fields)

lemma run_files_kept:
  "thrown (startDeployment fd i e fs) = None \<Longrightarrow> unlinkError e = Some m \<Longrightarrow>
   files (startDeployment fd i e fs) (tempPath e i (uniqueAppName (startDeployment fd i e fs))) =
     Some (flyTomlContent (uniqueAppName (startDeployment fd i e fs)) (flyRegion e) (imageName e))"
  by (cases fd i e fs rule: tryBlock_cases)
     (simp_all add: startDeployment_def finally_fields tryCatch_fields fsUnlink_def
        tempPath_nonempty)

lemma sticky_run: "thrown (startDeployment acmeForm ''d1'' stickyWorld Map.empty) = None"
  using happy_run by (simp add: stickyWorld_def tryCatch_unlink startDeployment_def finally_fields)

text \<open>
  Claim C8 as the specification states it fails: when the deletion is refused, the run
  succeeds and the descriptor is still in the file system after it.
\<close>

theorem descriptor_counterexample:
  "thrown (startDeployment acmeForm ''d1'' stickyWorld Map.empty) = None
   \<and> files (startDeployment acmeForm ''d1'' stickyWorld Map.empty) ''/tmp/fly_d1_acme-inc--5500.toml'' =
       Some (flyTomlContent ''acme-inc--5500'' ''ams'' ''dominicwhitehumanitec/canyonchat:latest'')"
proof -
  let ?r = "startDeployment acmeForm ''d1'' stickyWorld Map.empty"
  have u: "unlinkError stickyWorld = Some ''EPERM: operation not permitted''"
    by (simp add: stickyWorld_def)
  have n: "uniqueAppName ?r = ''acme-inc--5500''"
    by (simp add: acme_name stickyWorld_def happyWorld_def acme_half)
  have p: "tempPath stickyWorld ''d1'' ''acme-inc--5500'' = ''/tmp/fly_d1_acme-inc--5500.toml''"
    by (simp add: tempPath_def stickyWorld_def happyWorld_def)
  have c: "flyRegion stickyWorld = ''ams''"
      "imageName stickyWorld = ''dominicwhitehumanitec/canyonchat:latest''"
    by (simp_all add: flyRegion_def imageName_def orElse_def stickyWorld_def happyWorld_def)
  have "files ?r (tempPath stickyWorld ''d1'' (uniqueAppName ?r)) =
     Some (flyTomlContent (uniqueAppName ?r) (flyRegion stickyWorld) (imageName stickyWorld))"
    using sticky_run u by (rule run_files_kept)
  then have "files ?r ''/tmp/fly_d1_acme-inc--5500.toml'' =
       Some (flyTomlContent ''acme-inc--5500'' ''ams'' ''dominicwhitehumanitec/canyonchat:latest'')"
    unfolding n p c .
  with sticky_run show ?thesis by simp
qed

text \<open>In the world in which every step succeeds the descriptor is written, deleted and gone.\<close>

theorem descriptor_removal_witness:
  "unlinkError happyWorld = None
   \<and> tempFlyTomlPath (startDeployment acmeForm ''d1'' happyWorld Map.empty) =
       ''/tmp/fly_d1_acme-inc--5500.toml''
   \<and> ''/tmp/fly_d1_acme-inc--5500.toml'' \<noteq> []
   \<and> files (startDeployment acmeForm ''d1'' happyWorld Map.empty) ''/tmp/fly_d1_acme-inc--5500.toml'' = None
   \<and> unlinks (trace (startDeployment acmeForm ''d1'' happyWorld Map.empty)) =
       [''/tmp/fly_d1_acme-inc--5500.toml'']"
proof -
  let ?r = "startDeployment acmeForm ''d1'' happyWorld Map.empty"
  have n: "uniqueAppName ?r = ''acme-inc--5500''"
    by (simp add: acme_name happyWorld_def acme_half)
  have "tempFlyTomlPath ?r = tempPath happyWorld ''d1'' (uniqueAppName ?r)"
    using happy_run by (rule run_path)
  then have p: "tempFlyTomlPath ?r = ''/tmp/fly_d1_acme-inc--5500.toml''"
    unfolding n by (simp add: tempPath_def happyWorld_def)
  have u: "unlinkError happyWorld = None" by (simp add: happyWorld_def)
  have q: "''/tmp/fly_d1_acme-inc--5500.toml'' \<noteq> []" by simp
  from descriptor_removal [of acmeForm "''d1''" happyWorld Map.empty "[]" None]
  have "unlinks (trace ?r) = (if tempFlyTomlPath ?r = [] then [] else [tempFlyTomlPath ?r])"
    and "unlinkError happyWorld = None \<longrightarrow> tempFlyTomlPath ?r \<noteq> [] \<longrightarrow>
        files ?r (tempFlyTomlPath ?r) = None"
    by blast+
  then show ?thesis unfolding p using u q by simp
qed


section \<open>Properties of the entry point and the progress channel\<close>

subsection \<open>Attaching and submitting\<close>




text \<open>Publishing for an identifier that has no subscriber changes nothing.\<close>

lemma publish_unregistered: "clients srv i = None \<Longrightarrow> publish i evs srv = srv"
  unfolding publish_def by (induction evs) (simp_all add: sendStatusUpdate_def)

text \<open>Publishing registers nobody.\<close>

lemma publish_dom: "dom (clients (publish i evs srv)) \<subseteq> dom (clients srv)"
proof (induction evs arbitrary: srv)
  case Nil
  show ?case by (simp add: publish_def)
next
  case (Cons ev evs)
  let ?s = "sendStatusUpdate i (message ev) (isError ev) (isComplete ev) (data ev) srv"
  have "dom (clients ?s) \<subseteq> dom (clients srv)"
    by (auto simp: sendStatusUpdate_def Let_def split: option.splits if_splits)
  moreover have "publish i (ev # evs) srv = publish i evs ?s" by (simp add: publish_def)
  ultimately show ?case using Cons.IH [of ?s] by auto
qed

text \<open>
  Claim C6 as the specification states it fails: an organization name of three spaces is
  empty after trimming, and the request is accepted and its run started.
\<close>

theorem submit_counterexample:
  "trim ''   '' = []
   \<and> deployPost \<lparr>orgName = JStr ''   '', geminiKey = JStr ''k''\<rparr> ''d1'' happyWorld Map.empty idle =
       (idle, Reply 202 (accepted ''d1''),
        Some (startDeployment \<lparr>orgName = JStr ''   '', geminiKey = JStr ''k''\<rparr> ''d1'' happyWorld
                Map.empty))"
proof -
  have "clients idle ''d1'' = None" by (simp add: idle_def)
  then have "publish ''d1'' evs idle = idle" for evs by (rule publish_unregistered)
  then show ?thesis by (simp add: deployPost_def invalid_def trim_def is_ws_def)
qed

text \<open>
  Claim C6, amended. The handler tests the two fields for truthiness. A request in which a
  required field is absent, \<^verbatim>\<open>null\<close>, \<^verbatim>\<open>false\<close>, zero or the empty string is refused with
  status 400 before anything starts: the server is as it was and no run exists, so nothing
  was registered and nothing outside was called. Every other request is accepted with status
  202 and its run is started; accepting registers no subscriber either, and with an
  identifier that has no subscriber it leaves the server as it was. The fields are not
  trimmed, so white space alone counts as a value, and they need not be strings: a number
  other than zero, \<^verbatim>\<open>true\<close>, an array and an object count as values too.
\<close>

theorem submit_validation:
  "(\<not> truthyVal (orgName fd) \<or> \<not> truthyVal (geminiKey fd) \<longrightarrow>
      deployPost fd u e fs srv = (srv, Reply 400 missingFields, None))
   \<and> (truthyVal (orgName fd) \<and> truthyVal (geminiKey fd) \<longrightarrow>
      snd (deployPost fd u e fs srv) = (Reply 202 (accepted u), Some (startDeployment fd u e fs))
      \<and> dom (clients (fst (deployPost fd u e fs srv))) \<subseteq> dom (clients srv)
      \<and> (clients srv u = None \<longrightarrow> fst (deployPost fd u e fs srv) = srv))
   \<and> (truthyVal v \<longleftrightarrow>
        v \<noteq> JUndefined \<and> v \<noteq> JNull \<and> v \<noteq> JBool False \<and> v \<noteq> JNum 0 \<and> v \<noteq> JStr [])"
proof (intro conjI impI)
  assume "\<not> truthyVal (orgName fd) \<or> \<not> truthyVal (geminiKey fd)"
  then show "deployPost fd u e fs srv = (srv, Reply 400 missingFields, None)"
    by (simp add: deployPost_def invalid_def)
next
  assume t: "truthyVal (orgName fd) \<and> truthyVal (geminiKey fd)"
  then show "snd (deployPost fd u e fs srv) =
      (Reply 202 (accepted u), Some (startDeployment fd u e fs))"
    by (simp add: deployPost_def invalid_def)
  show "dom (clients (fst (deployPost fd u e fs srv))) \<subseteq> dom (clients srv)"
    using t by (simp add: deployPost_def invalid_def publish_dom)
  show "fst (deployPost fd u e fs srv) = srv" if "clients srv u = None"
    using t that by (simp add: deployPost_def invalid_def publish_unregistered)
next
  show "truthyVal v \<longleftrightarrow>
        v \<noteq> JUndefined \<and> v \<noteq> JNull \<and> v \<noteq> JBool False \<and> v \<noteq> JNum 0 \<and> v \<noteq> JStr []"
    by (cases v) auto
qed

text \<open>An empty organization name is refused; a number and \<^verbatim>\<open>true\<close> are accepted.\<close>

theorem submit_validation_witness:
  "deployPost \<lparr>orgName = JStr [], geminiKey = JStr ''k''\<rparr> ''d1'' happyWorld Map.empty idle =
     (idle, Reply 400 missingFields, None)
   \<and> deployPost \<lparr>orgName = JNum 123, geminiKey = JBool True\<rparr> ''d1'' happyWorld Map.empty idle =
     (idle, Reply 202 (accepted ''d1''),
      Some (startDeployment \<lparr>orgName = JNum 123, geminiKey = JBool True\<rparr> ''d1'' happyWorld Map.empty))
   \<and> truthyVal (JStr ''   '')
   \<and> \<not> truthyVal (JNum 0)"
  using
    submit_validation [of "\<lparr>orgName = JStr [], geminiKey = JStr ''k''\<rparr>" "''d1''" happyWorld
      Map.empty idle "JStr ''   ''"]
    submit_validation [of "\<lparr>orgName = JNum 123, geminiKey = JBool True\<rparr>" "''d1''" happyWorld
      Map.empty idle "JNum 0"]
  by (simp add: idle_def prod_eq_iff)

subsection \<open>Delivery\<close>














subsection \<open>The turns of the failing runs\<close>

lemma segments_nonempty: "segments tr \<noteq> []"
  by (induction tr rule: segments.induct) (auto split: list.splits)

lemma concat_segments: "concat (map events (segments tr)) = events tr"
  by (induction tr rule: segments.induct) (auto split: list.splits simp: segments_nonempty)

lemma concat_turns: "concat (turns r) = events (trace r)"
  by (simp add: turns_def concat_segments)


lemma thirdSecret_turns:
  \<open>turns (startDeployment acmeForm ''d1'' thirdSecretWorld Map.empty) =
    [map progress
       [''Generating unique application name...'',
        ''Generated Fly app name: acme-inc--5500'',
        ''Setting up Humanitec service user and token...'',
        ''Creating/finding Humanitec service user: canyon-chat-fly-acme-inc--5500...''],
     [],
     map progress
       [''Successfully created Humanitec service user. ID: u1'',
        ''Generating API token for user ID: u1...''],
     [],
     map progress
       [''Successfully generated Humanitec API token.'',
        ''Humanitec setup complete.'',
        ''Creating Fly app '' @ quoted ''acme-inc--5500'' @ '' in region '' @ quoted ''ams'' @ ''...'',
        ''Executing: flyctl apps create acme-inc--5500 --org personal...''],
     map progress
       [''Command "flyctl apps create acme-inc--5500 --org personal" completed successfully.'',
        ''Fly app '' @ quoted ''acme-inc--5500'' @ '' created.'',
        ''Setting secrets in Fly app (one by one)...'',
        ''Setting secret GOOGLE_API_KEY...'',
        ''Executing: flyctl secrets set -a acme-inc--5500 GOOGLE_API_KEY=k...''],
     map progress
       [''Command "flyctl secrets set -a acme-inc--5500 GOOGLE_API_KEY=k" completed successfully.'',
        ''Secret GOOGLE_API_KEY set.'',
        ''Setting secret HUMANITEC_TOKEN...'',
        ''Executing: flyctl secrets set -a acme-inc--5500 HUMANITEC_TOKEN=t1...''],
     map progress
       [''Command "flyctl secrets set -a acme-inc--5500 HUMANITEC_TOKEN=t1" completed successfully.'',
        ''Secret HUMANITEC_TOKEN set.'',
        ''Setting secret DEFAULT_MODEL...'',
        ''Executing: flyctl secrets set -a acme-inc--5500 DEFAULT_MODEL=gemini-2.5-pro-preview-03-25...''],
     [progress ''[stderr] Error: unauthorized''],
     [\<lparr>message = ''Command "flyctl secrets set -a acme-inc--5500 DEFAULT_MODEL=gemini-2.5-pro-preview-03-25" failed with exit code 1. Stderr: Error: unauthorized'' @ nl,
       isError = True, isComplete = False, data = None\<rparr>,
      \<lparr>message = ''Deployment failed: Command "flyctl secrets set -a acme-inc--5500 DEFAULT_MODEL=gemini-2.5-pro-preview-03-25" failed with exit code 1. Stderr: Error: unauthorized'' @ nl,
       isError = True, isComplete = True, data = None\<rparr>,
      progress ''Attempting to clean up failed deployment for app acme-inc--5500...'',
      progress ''Executing: flyctl apps destroy acme-inc--5500 --yes...''],
     map progress
       [''Command "flyctl apps destroy acme-inc--5500 --yes" completed successfully.'',
        ''Cleaned up failed app acme-inc--5500.'']]\<close>
  by (simp add: turns_def progress_def run_defs completedMessage_def serviceUserName_def
        failedMessage_def quoted_def nl_def trim_def is_ws_def stringOf.simps)

text \<open>
  Claim C2 is not met by the code. Setting the third secret is refused, after the
  application was created. The subscriber attaches when \<^verbatim>\<open>POST /deploy\<close> has answered and
  stays attached. The last event delivered is \<^verbatim>\<open>Deployment failed: ...\<close>, the only one with
  \<open>isComplete\<close> true: with it the server ends the response and forgets the subscriber. The
  run publishes the four events of the cleanup after it, and none of them is delivered,
  although the \<^verbatim>\<open>catch\<close> block hands the callback to the destroy command in order to
  \<^emph>\<open>also send cleanup status via SSE\<close> and to \<^emph>\<open>report cleanup failure via SSE\<close>.
\<close>

theorem cleanup_undelivered:
  \<open>map message (delivered ''d1'' (serve
      (GetStatus ''d1'' #
       map (Update ''d1'')
         (concat (tl (turns (startDeployment acmeForm ''d1'' thirdSecretWorld Map.empty)))))
      (fst (deployPost acmeForm ''d1'' thirdSecretWorld Map.empty idle)))) =
    [''Connected to status updates.'',
     ''Successfully created Humanitec service user. ID: u1'',
     ''Generating API token for user ID: u1...'',
     ''Successfully generated Humanitec API token.'',
     ''Humanitec setup complete.'',
     ''Creating Fly app '' @ quoted ''acme-inc--5500'' @ '' in region '' @ quoted ''ams'' @ ''...'',
     ''Executing: flyctl apps create acme-inc--5500 --org personal...'',
     ''Command "flyctl apps create acme-inc--5500 --org personal" completed successfully.'',
     ''Fly app '' @ quoted ''acme-inc--5500'' @ '' created.'',
     ''Setting secrets in Fly app (one by one)...'',
     ''Setting secret GOOGLE_API_KEY...'',
     ''Executing: flyctl secrets set -a acme-inc--5500 GOOGLE_API_KEY=k...'',
     ''Command "flyctl secrets set -a acme-inc--5500 GOOGLE_API_KEY=k" completed successfully.'',
     ''Secret GOOGLE_API_KEY set.'',
     ''Setting secret HUMANITEC_TOKEN...'',
     ''Executing: flyctl secrets set -a acme-inc--5500 HUMANITEC_TOKEN=t1...'',
     ''Command "flyctl secrets set -a acme-inc--5500 HUMANITEC_TOKEN=t1" completed successfully.'',
     ''Secret HUMANITEC_TOKEN set.'',
     ''Setting secret DEFAULT_MODEL...'',
     ''Executing: flyctl secrets set -a acme-inc--5500 DEFAULT_MODEL=gemini-2.5-pro-preview-03-25...'',
     ''[stderr] Error: unauthorized'',
     ''Command "flyctl secrets set -a acme-inc--5500 DEFAULT_MODEL=gemini-2.5-pro-preview-03-25" failed with exit code 1. Stderr: Error: unauthorized'' @ nl,
     ''Deployment failed: Command "flyctl secrets set -a acme-inc--5500 DEFAULT_MODEL=gemini-2.5-pro-preview-03-25" failed with exit code 1. Stderr: Error: unauthorized'' @ nl]
   \<and> map isComplete (delivered ''d1'' (serve
      (GetStatus ''d1'' #
       map (Update ''d1'')
         (concat (tl (turns (startDeployment acmeForm ''d1'' thirdSecretWorld Map.empty)))))
      (fst (deployPost acmeForm ''d1'' thirdSecretWorld Map.empty idle)))) =
    replicate 22 False @ [True]
   \<and> map message (dropWhile (\<lambda>ev. \<not> isComplete ev)
        (events (trace (startDeployment acmeForm ''d1'' thirdSecretWorld Map.empty)))) =
    [''Deployment failed: Command "flyctl secrets set -a acme-inc--5500 DEFAULT_MODEL=gemini-2.5-pro-preview-03-25" failed with exit code 1. Stderr: Error: unauthorized'' @ nl,
     ''Attempting to clean up failed deployment for app acme-inc--5500...'',
     ''Executing: flyctl apps destroy acme-inc--5500 --yes...'',
     ''Command "flyctl apps destroy acme-inc--5500 --yes" completed successfully.'',
     ''Cleaned up failed app acme-inc--5500.'']
   \<and> clients (serve
      (GetStatus ''d1'' #
       map (Update ''d1'')
         (concat (tl (turns (startDeployment acmeForm ''d1'' thirdSecretWorld Map.empty)))))
      (fst (deployPost acmeForm ''d1'' thirdSecretWorld Map.empty idle))) ''d1'' = None\<close>
proof -
  let ?r = "startDeployment acmeForm ''d1'' thirdSecretWorld Map.empty"
  have "clients idle ''d1'' = None" by (simp add: idle_def)
  then have "publish ''d1'' evs idle = idle" for evs by (rule publish_unregistered)
  then have p: "fst (deployPost acmeForm ''d1'' thirdSecretWorld Map.empty idle) = idle"
    by (simp add: deployPost_def invalid_def acmeForm_def)
  have e: "events (trace ?r) = concat (turns ?r)" by (simp add: concat_turns)
  show ?thesis
    unfolding p e thirdSecret_turns
    by (simp add: serve_def statusGet_def statusHandler_def sendStatusUpdate_def delivered_def
          idle_def connected_def progress_def Let_def numeral_eq_Suc)
qed





end
